theory Spec2Isabelle
  imports Complex_Main "HOL-Library.Sublist"
begin

section \<open>Python values and the operations the sources use on them\<close>

text \<open>
  Every payload of the dashboard is what \<^verbatim>\<open>response.json()\<close> returns: a JSON value
  as a Python object. \<open>JNull\<close> is Python's \<^verbatim>\<open>None\<close>, so a function that returns
  "absent" returns \<open>JNull\<close>. An object is an association list read with \<open>map_of\<close>;
  the objects of a parsed document have distinct keys. A float is carried as the
  rational it denotes: the sources only test, copy and format floats.
\<close>

datatype json =
    JNull
  | JBool bool
  | JInt int
  | JFloat rat
  | JStr string
  | JArr "json list"
  | JObj "(string \<times> json) list"

datatype exn = KeyError | IndexError | TypeError | AttributeError | ValueError

text \<open>Sequencing of computations that may raise: the first exception wins.\<close>

definition ebind :: "exn + 'a \<Rightarrow> ('a \<Rightarrow> exn + 'b) \<Rightarrow> exn + 'b" where
  "ebind m f = (case m of Inl e \<Rightarrow> Inl e | Inr v \<Rightarrow> f v)"

text \<open>Truth value testing (\<^verbatim>\<open>if v\<close>, \<^verbatim>\<open>not v\<close>).\<close>

fun truthy :: "json \<Rightarrow> bool" where
  "truthy JNull = False"
| "truthy (JBool b) = b"
| "truthy (JInt i) = (i \<noteq> 0)"
| "truthy (JFloat r) = (r \<noteq> 0)"
| "truthy (JStr s) = (s \<noteq> [])"
| "truthy (JArr xs) = (xs \<noteq> [])"
| "truthy (JObj kvs) = (kvs \<noteq> [])"

text \<open>\<^verbatim>\<open>v.get(key, default)\<close>: only a dict has the method.\<close>

fun py_get :: "json \<Rightarrow> string \<Rightarrow> json \<Rightarrow> exn + json" where
  "py_get (JObj kvs) k d = Inr (case map_of kvs k of Some v \<Rightarrow> v | None \<Rightarrow> d)"
| "py_get _ k d = Inl AttributeError"

text \<open>\<^verbatim>\<open>v[key]\<close> with a string key.\<close>

fun py_getitem_str :: "json \<Rightarrow> string \<Rightarrow> exn + json" where
  "py_getitem_str (JObj kvs) k = (case map_of kvs k of Some v \<Rightarrow> Inr v | None \<Rightarrow> Inl KeyError)"
| "py_getitem_str _ k = Inl TypeError"

text \<open>
  \<^verbatim>\<open>v[i]\<close> with an integer index: a negative index counts from the end of a list
  or string; no key of a JSON object is an integer.
\<close>

definition py_index :: "'a list \<Rightarrow> int \<Rightarrow> exn + 'a" where
  "py_index xs i =
     (if 0 \<le> i \<and> i < int (length xs) then Inr (xs ! nat i)
      else if i < 0 \<and> - int (length xs) \<le> i then Inr (xs ! nat (int (length xs) + i))
      else Inl IndexError)"

fun py_getitem_int :: "json \<Rightarrow> int \<Rightarrow> exn + json" where
  "py_getitem_int (JArr xs) i = py_index xs i"
| "py_getitem_int (JStr s) i = ebind (py_index s i) (\<lambda>c. Inr (JStr [c]))"
| "py_getitem_int (JObj kvs) i = Inl KeyError"
| "py_getitem_int _ i = Inl TypeError"

text \<open>\<^verbatim>\<open>for x in v\<close>: the elements of a list, the keys of a dict, the characters of a string.\<close>

fun py_iter :: "json \<Rightarrow> exn + json list" where
  "py_iter (JArr xs) = Inr xs"
| "py_iter (JObj kvs) = Inr (map (\<lambda>kv. JStr (fst kv)) kvs)"
| "py_iter (JStr s) = Inr (map (\<lambda>c. JStr [c]) s)"
| "py_iter _ = Inl TypeError"

text \<open>\<^verbatim>\<open>key in v\<close> with a string key.\<close>

fun py_contains :: "string \<Rightarrow> json \<Rightarrow> exn + bool" where
  "py_contains k (JObj kvs) = Inr (map_of kvs k \<noteq> None)"
| "py_contains k (JArr xs) = Inr (JStr k \<in> set xs)"
| "py_contains k (JStr s) = Inr (sublist k s)"
| "py_contains k _ = Inl TypeError"

text \<open>
  A replacement field of an f-string: a string is inserted as it is, any other value as
  the text the built-in \<^verbatim>\<open>str\<close> gives for it. That text belongs to the interpreter
  and is the parameter \<open>fmt\<close> of every function that formats a value.
\<close>

fun py_format :: "(json \<Rightarrow> string) \<Rightarrow> json \<Rightarrow> string" where
  "py_format fmt (JStr s) = s"
| "py_format fmt v = fmt v"

section \<open>RainViewer normalizers (api/rainviewer.py)\<close>

definition DEFAULT_HOST :: string where
  "DEFAULT_HOST = ''https://tilecache.rainviewer.com''"

text \<open>The f-string \<^verbatim>\<open>f"{host}{path}/256/{{z}}/{{x}}/{{y}}/2/1_1.png"\<close> of both normalizers.\<close>

definition tile_url :: "(json \<Rightarrow> string) \<Rightarrow> json \<Rightarrow> json \<Rightarrow> string" where
  "tile_url fmt host path = py_format fmt host @ py_format fmt path @ ''/256/{z}/{x}/{y}/2/1_1.png''"

text \<open>\<^verbatim>\<open>radar_data.get("radar", {}).get("past", [])\<close>, the frame list of both normalizers.\<close>

definition past_frames :: "json \<Rightarrow> exn + json" where
  "past_frames radar_data =
     ebind (py_get radar_data ''radar'' (JObj [])) (\<lambda>radar. py_get radar ''past'' (JArr []))"

text \<open>The body of the \<^verbatim>\<open>try\<close> block of \<^verbatim>\<open>get_radar_tile_url\<close>.\<close>

definition radar_tile_url_try :: "(json \<Rightarrow> string) \<Rightarrow> json \<Rightarrow> int \<Rightarrow> exn + json" where
  "radar_tile_url_try fmt radar_data frame_index =
     ebind (past_frames radar_data) (\<lambda>radar_frames.
       if \<not> truthy radar_frames then Inr JNull
       else
         ebind (py_getitem_int radar_frames frame_index) (\<lambda>frame.
         ebind (py_getitem_str frame ''path'') (\<lambda>path.
         ebind (py_get radar_data ''host'' (JStr DEFAULT_HOST)) (\<lambda>host.
           Inr (JStr (tile_url fmt host path))))))"

text \<open>\<^verbatim>\<open>except (KeyError, IndexError): return None\<close>; any other exception propagates.\<close>

definition get_radar_tile_url :: "(json \<Rightarrow> string) \<Rightarrow> json \<Rightarrow> int \<Rightarrow> exn + json" where
  "get_radar_tile_url fmt radar_data frame_index =
     (case radar_tile_url_try fmt radar_data frame_index of
        Inl KeyError \<Rightarrow> Inr JNull
      | Inl IndexError \<Rightarrow> Inr JNull
      | r \<Rightarrow> r)"

text \<open>
  The body of the \<^verbatim>\<open>for\<close> loop of \<^verbatim>\<open>get_all_radar_frames\<close>, up to the dict it
  appends: \<^verbatim>\<open>{"time": time, "url": url}\<close>.
\<close>

definition frame_entry :: "(json \<Rightarrow> string) \<Rightarrow> json \<Rightarrow> json \<Rightarrow> exn + json" where
  "frame_entry fmt host frame =
     ebind (py_getitem_str frame ''path'') (\<lambda>path.
     ebind (py_getitem_str frame ''time'') (\<lambda>time.
       Inr (JObj [(''time'', time), (''url'', JStr (tile_url fmt host path))])))"

text \<open>
  The loop appends to \<open>frames\<close> as it goes, so an exception leaves the frames appended
  so far in the list. The result is the list and the exception that ended the loop, if
  any.
\<close>

fun radar_frames_loop ::
  "(json \<Rightarrow> string) \<Rightarrow> json \<Rightarrow> json list \<Rightarrow> json list \<Rightarrow> json list \<times> exn option" where
  "radar_frames_loop fmt host [] frames = (frames, None)"
| "radar_frames_loop fmt host (frame # rest) frames =
     (case frame_entry fmt host frame of
        Inl e \<Rightarrow> (frames, Some e)
      | Inr entry \<Rightarrow> radar_frames_loop fmt host rest (frames @ [entry]))"

text \<open>The \<^verbatim>\<open>try\<close> block, started with \<open>frames = []\<close>.\<close>

definition all_radar_frames_try :: "(json \<Rightarrow> string) \<Rightarrow> json \<Rightarrow> json list \<times> exn option" where
  "all_radar_frames_try fmt radar_data =
     (case py_get radar_data ''host'' (JStr DEFAULT_HOST) of
        Inl e \<Rightarrow> ([], Some e)
      | Inr host \<Rightarrow>
     (case past_frames radar_data of
        Inl e \<Rightarrow> ([], Some e)
      | Inr radar_frames \<Rightarrow>
     (case py_iter radar_frames of
        Inl e \<Rightarrow> ([], Some e)
      | Inr items \<Rightarrow> radar_frames_loop fmt host items [])))"

text \<open>\<^verbatim>\<open>except (KeyError, TypeError): pass\<close>, then \<^verbatim>\<open>return frames\<close>.\<close>

definition get_all_radar_frames :: "(json \<Rightarrow> string) \<Rightarrow> json \<Rightarrow> exn + json list" where
  "get_all_radar_frames fmt radar_data =
     (case all_radar_frames_try fmt radar_data of
        (frames, None) \<Rightarrow> Inr frames
      | (frames, Some KeyError) \<Rightarrow> Inr frames
      | (frames, Some TypeError) \<Rightarrow> Inr frames
      | (frames, Some e) \<Rightarrow> Inl e)"

section \<open>The HTTP transport\<close>

text \<open>
  Every adapter wraps one GET in \<^verbatim>\<open>try: ... except Exception: return None\<close>: the
  call of the client, \<^verbatim>\<open>raise_for_status\<close> and the decoding of the body. Whatever
  goes wrong inside (transport failure, non-2xx status, a body that is not JSON, a URL
  the client refuses), the adapter returns \<^verbatim>\<open>None\<close>; otherwise it returns the decoded
  body. The upstream is a stub \<open>T\<close>: given the requests made so far and the request, it
  answers with a body or fails. The state threaded through the adapters is the list of
  requests made so far, oldest first.
\<close>

record request =
  req_url :: json
  req_params :: "(string \<times> json) list"
  req_headers :: "(string \<times> string) list"
  req_timeout :: rat

type_synonym transport = "request list \<Rightarrow> request \<Rightarrow> json option"

definition http_get :: "transport \<Rightarrow> request \<Rightarrow> request list \<Rightarrow> json \<times> request list" where
  "http_get T req hist =
     ((case T hist req of None \<Rightarrow> JNull | Some body \<Rightarrow> body), hist @ [req])"

section \<open>RainViewer and Open-Meteo fetch adapters (api/rainviewer.py, api/open_meteo.py)\<close>

definition RAINVIEWER_API :: string where
  "RAINVIEWER_API = ''https://api.rainviewer.com/public/weather-maps.json''"

definition fetch_radar_timestamps :: "transport \<Rightarrow> request list \<Rightarrow> json \<times> request list" where
  "fetch_radar_timestamps T hist =
     http_get T \<lparr>req_url = JStr RAINVIEWER_API, req_params = [], req_headers = [], req_timeout = 30\<rparr> hist"

definition OPEN_METEO_BASE :: string where
  "OPEN_METEO_BASE = ''https://api.open-meteo.com/v1/forecast''"

text \<open>\<^verbatim>\<open>sep.join(xs)\<close> on a list of strings.\<close>

fun join :: "string \<Rightarrow> string list \<Rightarrow> string" where
  "join sep [] = []"
| "join sep [x] = x"
| "join sep (x # y # ys) = x @ sep @ join sep (y # ys)"

definition default_variables :: "string list" where
  "default_variables =
     [''temperature_2m'', ''relative_humidity_2m'', ''precipitation'',
      ''wind_speed_10m'', ''wind_direction_10m'', ''weather_code'']"

text \<open>The GET that \<^verbatim>\<open>fetch_model_forecast\<close> sends.\<close>

definition model_request :: "rat \<Rightarrow> rat \<Rightarrow> string \<Rightarrow> string list option \<Rightarrow> request" where
  "model_request latitude longitude model variables =
     (let variables = (case variables of None \<Rightarrow> default_variables | Some vs \<Rightarrow> vs);
          params = [(''latitude'', JFloat latitude),
                    (''longitude'', JFloat longitude),
                    (''models'', JStr model),
                    (''hourly'', JStr (join '','' variables)),
                    (''timezone'', JStr ''auto''),
                    (''forecast_days'', JInt 7)]
      in \<lparr>req_url = JStr OPEN_METEO_BASE, req_params = params,
           req_headers = [], req_timeout = 30\<rparr>)"

definition fetch_model_forecast ::
  "transport \<Rightarrow> rat \<Rightarrow> rat \<Rightarrow> string \<Rightarrow> string list option \<Rightarrow> request list \<Rightarrow> json \<times> request list" where
  "fetch_model_forecast T latitude longitude model variables hist =
     http_get T (model_request latitude longitude model variables) hist"

definition fetch_multi_model_comparison ::
  "transport \<Rightarrow> rat \<Rightarrow> rat \<Rightarrow> string list option \<Rightarrow> request list \<Rightarrow> json \<times> request list" where
  "fetch_multi_model_comparison T latitude longitude variables hist =
     (let (gfs_data, hist1) = fetch_model_forecast T latitude longitude ''gfs_seamless'' variables hist;
          (ecmwf_data, hist2) = fetch_model_forecast T latitude longitude ''ecmwf_ifs'' variables hist1
      in (JObj [(''gfs'', gfs_data), (''ecmwf'', ecmwf_data)], hist2))"

section \<open>NWS adapters (dashboard.py)\<close>

definition NWS_API_BASE :: string where
  "NWS_API_BASE = ''https://api.weather.gov''"

definition USER_AGENT :: string where
  "USER_AGENT = ''weather-app/1.0''"

text \<open>The GET that \<^verbatim>\<open>make_nws_request\<close> sends.\<close>

definition nws_request :: "json \<Rightarrow> request" where
  "nws_request url =
     \<lparr>req_url = url, req_params = [],
      req_headers = [(''User-Agent'', USER_AGENT), (''Accept'', ''application/geo+json'')],
      req_timeout = 30\<rparr>"

definition make_nws_request :: "transport \<Rightarrow> json \<Rightarrow> request list \<Rightarrow> json \<times> request list" where
  "make_nws_request T url hist = http_get T (nws_request url) hist"


definition points_url :: "(json \<Rightarrow> string) \<Rightarrow> rat \<Rightarrow> rat \<Rightarrow> json" where
  "points_url fmt latitude longitude =
     JStr (NWS_API_BASE @ ''/points/'' @ py_format fmt (JFloat latitude)
           @ '','' @ py_format fmt (JFloat longitude))"


text \<open>
  The two-hop lookup. The subscripts on the points payload and on the forecast payload
  are outside any \<^verbatim>\<open>try\<close>: an exception there leaves the function, after the requests
  already made.
\<close>

definition fetch_forecast ::
  "(json \<Rightarrow> string) \<Rightarrow> transport \<Rightarrow> rat \<Rightarrow> rat \<Rightarrow> request list \<Rightarrow> (exn + json) \<times> request list" where
  "fetch_forecast fmt T latitude longitude hist =
     (let (points_data, hist1) = make_nws_request T (points_url fmt latitude longitude) hist
      in if \<not> truthy points_data then (Inr JNull, hist1)
         else
           (case ebind (py_getitem_str points_data ''properties'')
                       (\<lambda>properties. py_getitem_str properties ''forecast'') of
              Inl e \<Rightarrow> (Inl e, hist1)
            | Inr forecast_url \<Rightarrow>
                (let (forecast_data, hist2) = make_nws_request T forecast_url hist1
                 in if \<not> truthy forecast_data then (Inr JNull, hist2)
                    else
                      (ebind (py_getitem_str forecast_data ''properties'')
                             (\<lambda>properties. py_getitem_str properties ''periods''),
                       hist2))))"

section \<open>Chart builders (charts/model_comparison.py)\<close>

text \<open>
  A figure is its list of traces, in the order they were added, and its layout. The
  constructor of a trace validates \<open>x\<close> and \<open>y\<close> and raises \<^verbatim>\<open>ValueError\<close> for a value
  it does not take as a data array; which values it takes belongs to the chart library
  and is the parameter \<open>accepts\<close>.
\<close>

datatype trace_kind = Scatter | Bar

record trace =
  tr_kind :: trace_kind
  tr_x :: json
  tr_y :: json
  tr_name :: string
  tr_color :: string
  tr_attrs :: "(string \<times> string) list"
  tr_cell :: "(nat \<times> nat) option"

record figure =
  fig_traces :: "trace list"
  fig_layout :: "(string \<times> string) list"

definition GFS_COLOR :: string where
  "GFS_COLOR = ''#1f77b4''"

definition ECMWF_COLOR :: string where
  "ECMWF_COLOR = ''#ff7f0e''"

definition new_trace ::
  "(json \<Rightarrow> bool) \<Rightarrow> trace_kind \<Rightarrow> json \<Rightarrow> json \<Rightarrow> string \<Rightarrow> string \<Rightarrow> (string \<times> string) list
     \<Rightarrow> (nat \<times> nat) option \<Rightarrow> exn + trace" where
  "new_trace accepts kind x y name color attrs cell =
     (if accepts x \<and> accepts y
      then Inr \<lparr>tr_kind = kind, tr_x = x, tr_y = y, tr_name = name, tr_color = color,
                tr_attrs = attrs, tr_cell = cell\<rparr>
      else Inl ValueError)"

text \<open>
  One block of a builder:
  \<^verbatim>\<open>if data and "hourly" in data: fig.add_trace(Kind(x=data["hourly"]["time"], y=data["hourly"][var], ...))\<close>.
  It yields the traces it adds: none or one.
\<close>

definition hourly_trace ::
  "(json \<Rightarrow> bool) \<Rightarrow> json \<Rightarrow> string \<Rightarrow> trace_kind \<Rightarrow> string \<Rightarrow> string \<Rightarrow> (string \<times> string) list
     \<Rightarrow> (nat \<times> nat) option \<Rightarrow> exn + trace list" where
  "hourly_trace accepts data var kind name color attrs cell =
     (if \<not> truthy data then Inr []
      else
        ebind (py_contains ''hourly'' data) (\<lambda>has.
          if \<not> has then Inr []
          else
            ebind (py_getitem_str data ''hourly'') (\<lambda>hourly.
            ebind (py_getitem_str hourly ''time'') (\<lambda>x.
            ebind (py_getitem_str data ''hourly'') (\<lambda>hourly'.
            ebind (py_getitem_str hourly' var) (\<lambda>y.
            ebind (new_trace accepts kind x y name color attrs cell) (\<lambda>t. Inr [t])))))))"

definition legend_top_left :: "(string \<times> string) list" where
  "legend_top_left =
     [(''legend.yanchor'', ''top''), (''legend.y'', ''0.99''),
      (''legend.xanchor'', ''left''), (''legend.x'', ''0.01'')]"

definition create_temperature_comparison_chart :: "(json \<Rightarrow> bool) \<Rightarrow> json \<Rightarrow> json \<Rightarrow> exn + figure" where
  "create_temperature_comparison_chart accepts gfs_data ecmwf_data =
     ebind (hourly_trace accepts gfs_data ''temperature_2m'' Scatter ''GFS'' GFS_COLOR
              [(''mode'', ''lines''), (''line.width'', ''2'')] None) (\<lambda>t1.
     ebind (hourly_trace accepts ecmwf_data ''temperature_2m'' Scatter ''ECMWF'' ECMWF_COLOR
              [(''mode'', ''lines''), (''line.width'', ''2'')] None) (\<lambda>t2.
       Inr \<lparr>fig_traces = t1 @ t2,
            fig_layout = [(''title'', ''Temperature Forecast Comparison (GFS vs ECMWF)''),
                          (''xaxis_title'', ''Time''),
                          (''yaxis_title'', ''Temperature (C)'')]
                         @ legend_top_left @ [(''hovermode'', ''x unified'')]\<rparr>))"

definition create_precipitation_comparison_chart :: "(json \<Rightarrow> bool) \<Rightarrow> json \<Rightarrow> json \<Rightarrow> exn + figure" where
  "create_precipitation_comparison_chart accepts gfs_data ecmwf_data =
     ebind (hourly_trace accepts gfs_data ''precipitation'' Bar ''GFS'' GFS_COLOR
              [(''opacity'', ''0.7'')] None) (\<lambda>t1.
     ebind (hourly_trace accepts ecmwf_data ''precipitation'' Bar ''ECMWF'' ECMWF_COLOR
              [(''opacity'', ''0.7'')] None) (\<lambda>t2.
       Inr \<lparr>fig_traces = t1 @ t2,
            fig_layout = [(''title'', ''Precipitation Forecast Comparison (GFS vs ECMWF)''),
                          (''xaxis_title'', ''Time''),
                          (''yaxis_title'', ''Precipitation (mm)''),
                          (''barmode'', ''group'')]
                         @ legend_top_left @ [(''hovermode'', ''x unified'')]\<rparr>))"

definition create_wind_comparison_chart :: "(json \<Rightarrow> bool) \<Rightarrow> json \<Rightarrow> json \<Rightarrow> exn + figure" where
  "create_wind_comparison_chart accepts gfs_data ecmwf_data =
     ebind (hourly_trace accepts gfs_data ''wind_speed_10m'' Scatter ''GFS'' GFS_COLOR
              [(''mode'', ''lines''), (''line.width'', ''2''), (''fill'', ''tozeroy''),
               (''fillcolor'', ''rgba(31, 119, 180, 0.2)'')] None) (\<lambda>t1.
     ebind (hourly_trace accepts ecmwf_data ''wind_speed_10m'' Scatter ''ECMWF'' ECMWF_COLOR
              [(''mode'', ''lines''), (''line.width'', ''2''), (''fill'', ''tozeroy''),
               (''fillcolor'', ''rgba(255, 127, 14, 0.2)'')] None) (\<lambda>t2.
       Inr \<lparr>fig_traces = t1 @ t2,
            fig_layout = [(''title'', ''Wind Speed Forecast Comparison (GFS vs ECMWF)''),
                          (''xaxis_title'', ''Time''),
                          (''yaxis_title'', ''Wind Speed (km/h)'')]
                         @ legend_top_left @ [(''hovermode'', ''x unified'')]\<rparr>))"

definition create_multi_variable_dashboard :: "(json \<Rightarrow> bool) \<Rightarrow> json \<Rightarrow> json \<Rightarrow> exn + figure" where
  "create_multi_variable_dashboard accepts gfs_data ecmwf_data =
     ebind (hourly_trace accepts gfs_data ''temperature_2m'' Scatter ''GFS'' GFS_COLOR
              [(''mode'', ''lines''), (''showlegend'', ''True'')] (Some (1, 1))) (\<lambda>t1.
     ebind (hourly_trace accepts ecmwf_data ''temperature_2m'' Scatter ''ECMWF'' ECMWF_COLOR
              [(''mode'', ''lines''), (''showlegend'', ''True'')] (Some (1, 1))) (\<lambda>t2.
     ebind (hourly_trace accepts gfs_data ''precipitation'' Bar ''GFS Precip'' GFS_COLOR
              [(''opacity'', ''0.7''), (''showlegend'', ''False'')] (Some (1, 2))) (\<lambda>t3.
     ebind (hourly_trace accepts ecmwf_data ''precipitation'' Bar ''ECMWF Precip'' ECMWF_COLOR
              [(''opacity'', ''0.7''), (''showlegend'', ''False'')] (Some (1, 2))) (\<lambda>t4.
     ebind (hourly_trace accepts gfs_data ''wind_speed_10m'' Scatter ''GFS Wind'' GFS_COLOR
              [(''mode'', ''lines''), (''showlegend'', ''False'')] (Some (2, 1))) (\<lambda>t5.
     ebind (hourly_trace accepts ecmwf_data ''wind_speed_10m'' Scatter ''ECMWF Wind'' ECMWF_COLOR
              [(''mode'', ''lines''), (''showlegend'', ''False'')] (Some (2, 1))) (\<lambda>t6.
     ebind (hourly_trace accepts gfs_data ''relative_humidity_2m'' Scatter ''GFS Humidity'' GFS_COLOR
              [(''mode'', ''lines''), (''showlegend'', ''False'')] (Some (2, 2))) (\<lambda>t7.
     ebind (hourly_trace accepts ecmwf_data ''relative_humidity_2m'' Scatter ''ECMWF Humidity'' ECMWF_COLOR
              [(''mode'', ''lines''), (''showlegend'', ''False'')] (Some (2, 2))) (\<lambda>t8.
       Inr \<lparr>fig_traces = t1 @ t2 @ t3 @ t4 @ t5 @ t6 @ t7 @ t8,
            fig_layout = [(''height'', ''600''),
                          (''title_text'', ''Weather Model Comparison Dashboard''),
                          (''showlegend'', ''True''),
                          (''legend.yanchor'', ''top''), (''legend.y'', ''1.02''),
                          (''legend.xanchor'', ''left''), (''legend.x'', ''0.01''),
                          (''legend.orientation'', ''h'')]\<rparr>))))))))"

section \<open>Alerts map builder (maps/weather_maps.py)\<close>

definition STATE_CENTERS :: "(string \<times> rat \<times> rat) list" where
  "STATE_CENTERS =
     [(''AL'', 32.806671, -86.791130), (''AK'', 61.370716, -152.404419),
      (''AZ'', 33.729759, -111.431221), (''AR'', 34.969704, -92.373123),
      (''CA'', 36.116203, -119.681564), (''CO'', 39.059811, -105.311104),
      (''CT'', 41.597782, -72.755371), (''DE'', 39.318523, -75.507141),
      (''FL'', 27.766279, -81.686783), (''GA'', 33.040619, -83.643074),
      (''HI'', 21.094318, -157.498337), (''ID'', 44.240459, -114.478828),
      (''IL'', 40.349457, -88.986137), (''IN'', 39.849426, -86.258278),
      (''IA'', 42.011539, -93.210526), (''KS'', 38.526600, -96.726486),
      (''KY'', 37.668140, -84.670067), (''LA'', 31.169546, -91.867805),
      (''ME'', 44.693947, -69.381927), (''MD'', 39.063946, -76.802101),
      (''MA'', 42.230171, -71.530106), (''MI'', 43.326618, -84.536095),
      (''MN'', 45.694454, -93.900192), (''MS'', 32.741646, -89.678696),
      (''MO'', 38.456085, -92.288368), (''MT'', 46.921925, -110.454353),
      (''NE'', 41.125370, -98.268082), (''NV'', 38.313515, -117.055374),
      (''NH'', 43.452492, -71.563896), (''NJ'', 40.298904, -74.521011),
      (''NM'', 34.840515, -106.248482), (''NY'', 42.165726, -74.948051),
      (''NC'', 35.630066, -79.806419), (''ND'', 47.528912, -99.784012),
      (''OH'', 40.388783, -82.764915), (''OK'', 35.565342, -96.928917),
      (''OR'', 44.572021, -122.070938), (''PA'', 40.590752, -77.209755),
      (''RI'', 41.680893, -71.511780), (''SC'', 33.856892, -80.945007),
      (''SD'', 44.299782, -99.438828), (''TN'', 35.747845, -86.692345),
      (''TX'', 31.054487, -97.563461), (''UT'', 40.150032, -111.862434),
      (''VT'', 44.045876, -72.710686), (''VA'', 37.769337, -78.169968),
      (''WA'', 47.400902, -121.490494), (''WV'', 38.491226, -80.954453),
      (''WI'', 44.268543, -89.616508), (''WY'', 42.755966, -107.302490)]"

definition SEVERITY_COLORS :: "(string \<times> string) list" where
  "SEVERITY_COLORS =
     [(''Extreme'', ''#FF0000''),
      (''Severe'', ''#FF6600''),
      (''Moderate'', ''#FFCC00''),
      (''Minor'', ''#00FF00''),
      (''Unknown'', ''#808080'')]"

text \<open>
  \<^verbatim>\<open>SEVERITY_COLORS.get(severity, "#808080")\<close>: the key is hashed first, and a list or
  a dict is not hashable; every key of the table is a string.
\<close>

fun severity_color :: "json \<Rightarrow> exn + string" where
  "severity_color (JStr s) = Inr (case map_of SEVERITY_COLORS s of Some c \<Rightarrow> c | None \<Rightarrow> ''#808080'')"
| "severity_color (JArr xs) = Inl TypeError"
| "severity_color (JObj kvs) = Inl TypeError"
| "severity_color _ = Inr ''#808080''"

text \<open>
  What the builder adds to the map: a GeoJson shape (its geometry, the colour its style
  function gives to \<open>fillColor\<close> and \<open>color\<close>, its popup) or a marker pin (its
  location, its popup, its icon colour).
\<close>

datatype map_child =
    GeoJson json string string
  | Marker "rat \<times> rat" string string

record folium_map =
  map_location :: "rat \<times> rat"
  map_zoom_start :: nat
  map_tiles :: string
  map_children :: "map_child list"

definition NL :: string where
  "NL = [CHR 0x0A]"

definition popup_html :: "(json \<Rightarrow> string) \<Rightarrow> json \<Rightarrow> json \<Rightarrow> json \<Rightarrow> string" where
  "popup_html fmt event severity area =
     NL @ ''        <b>'' @ py_format fmt event @ ''</b><br>'' @
     NL @ ''        <b>Severity:</b> '' @ py_format fmt severity @ ''<br>'' @
     NL @ ''        <b>Area:</b> '' @ py_format fmt area @
     NL @ ''        ''"

text \<open>\<^verbatim>\<open>geometry and geometry.get("type") in ["Polygon", "MultiPolygon"]\<close>\<close>

definition is_polygonal :: "json \<Rightarrow> exn + bool" where
  "is_polygonal geometry =
     (if \<not> truthy geometry then Inr False
      else ebind (py_get geometry ''type'' JNull) (\<lambda>t.
             Inr (t \<in> set [JStr ''Polygon'', JStr ''MultiPolygon''])))"

text \<open>The body of the loop over the alerts: the element it adds for one alert.\<close>

definition alert_child :: "(json \<Rightarrow> string) \<Rightarrow> rat \<times> rat \<Rightarrow> json \<Rightarrow> exn + map_child" where
  "alert_child fmt center alert =
     ebind (py_get alert ''properties'' (JObj [])) (\<lambda>props.
     ebind (py_get alert ''geometry'' JNull) (\<lambda>geometry.
     ebind (py_get props ''severity'' (JStr ''Unknown'')) (\<lambda>severity.
     ebind (severity_color severity) (\<lambda>color.
     ebind (py_get props ''event'' (JStr ''Unknown Event'')) (\<lambda>event.
     ebind (py_get props ''areaDesc'' (JStr ''Unknown Area'')) (\<lambda>area.
     ebind (is_polygonal geometry) (\<lambda>polygonal.
       if polygonal
       then Inr (GeoJson geometry color (popup_html fmt event severity area))
       else Inr (Marker center (popup_html fmt event severity area) ''red''))))))))"

fun alerts_loop ::
  "(json \<Rightarrow> string) \<Rightarrow> rat \<times> rat \<Rightarrow> json list \<Rightarrow> map_child list \<Rightarrow> exn + map_child list" where
  "alerts_loop fmt center [] children = Inr children"
| "alerts_loop fmt center (alert # rest) children =
     ebind (alert_child fmt center alert) (\<lambda>c. alerts_loop fmt center rest (children @ [c]))"

definition create_alerts_map :: "(json \<Rightarrow> string) \<Rightarrow> json list \<Rightarrow> string \<Rightarrow> exn + folium_map" where
  "create_alerts_map fmt alerts state_code =
     (let center = (case map_of STATE_CENTERS state_code of
                      Some c \<Rightarrow> c
                    | None \<Rightarrow> (39.8283, -98.5795))
      in ebind (alerts_loop fmt center alerts []) (\<lambda>children.
           Inr \<lparr>map_location = center, map_zoom_start = 6, map_tiles = ''CartoDB positron'',
                map_children = children\<rparr>))"

section \<open>Predicates of the statements\<close>

text \<open>A well-formed entry of \<open>radar.past\<close>: an object with a \<open>path\<close> and a \<open>time\<close>.\<close>

fun is_frame :: "json \<Rightarrow> bool" where
  "is_frame (JObj kvs) = (map_of kvs ''path'' \<noteq> None \<and> map_of kvs ''time'' \<noteq> None)"
| "is_frame _ = False"

text \<open>
  A response is present and has the series of a variable: it is a true value, and
  \<^verbatim>\<open>data["hourly"][var]\<close> succeeds.
\<close>

definition has_series :: "json \<Rightarrow> string \<Rightarrow> bool" where
  "has_series data var =
     (truthy data \<and>
      (case py_getitem_str data ''hourly'' of
         Inl e \<Rightarrow> False
       | Inr hourly \<Rightarrow> (case py_getitem_str hourly var of Inl e \<Rightarrow> False | Inr y \<Rightarrow> True)))"

text \<open>
  The traces each chart builder draws, in order: the name of the trace, whether it is
  drawn from the GFS response (else from the ECMWF one), and the variable it plots.
\<close>

definition temperature_plan :: "(string \<times> bool \<times> string) list" where
  "temperature_plan = [(''GFS'', True, ''temperature_2m''), (''ECMWF'', False, ''temperature_2m'')]"

definition precipitation_plan :: "(string \<times> bool \<times> string) list" where
  "precipitation_plan = [(''GFS'', True, ''precipitation''), (''ECMWF'', False, ''precipitation'')]"

definition wind_plan :: "(string \<times> bool \<times> string) list" where
  "wind_plan = [(''GFS'', True, ''wind_speed_10m''), (''ECMWF'', False, ''wind_speed_10m'')]"

definition dashboard_plan :: "(string \<times> bool \<times> string) list" where
  "dashboard_plan =
     [(''GFS'', True, ''temperature_2m''), (''ECMWF'', False, ''temperature_2m''),
      (''GFS Precip'', True, ''precipitation''), (''ECMWF Precip'', False, ''precipitation''),
      (''GFS Wind'', True, ''wind_speed_10m''), (''ECMWF Wind'', False, ''wind_speed_10m''),
      (''GFS Humidity'', True, ''relative_humidity_2m''),
      (''ECMWF Humidity'', False, ''relative_humidity_2m'')]"

text \<open>The names of the traces of a plan whose response has the series.\<close>

definition drawn :: "json \<Rightarrow> json \<Rightarrow> string \<times> bool \<times> string \<Rightarrow> bool" where
  "drawn gfs_data ecmwf_data p =
     has_series (if fst (snd p) then gfs_data else ecmwf_data) (snd (snd p))"

definition expected_names :: "(string \<times> bool \<times> string) list \<Rightarrow> json \<Rightarrow> json \<Rightarrow> string list" where
  "expected_names plan gfs_data ecmwf_data = map fst (filter (drawn gfs_data ecmwf_data) plan)"

text \<open>
  One block of a builder goes through for a response: the response is a false value, or
  \<^verbatim>\<open>"hourly" in data\<close> is false, or \<^verbatim>\<open>data["hourly"]\<close> has \<open>time\<close> and the
  variable and the chart library takes both.
\<close>

definition series_ok :: "(json \<Rightarrow> bool) \<Rightarrow> json \<Rightarrow> string \<Rightarrow> bool" where
  "series_ok accepts data var =
     (\<not> truthy data \<or> py_contains ''hourly'' data = Inr False \<or>
      (case py_getitem_str data ''hourly'' of
         Inl e \<Rightarrow> False
       | Inr hourly \<Rightarrow>
           (case py_getitem_str hourly ''time'' of
              Inl e \<Rightarrow> False
            | Inr x \<Rightarrow>
                (case py_getitem_str hourly var of
                   Inl e \<Rightarrow> False
                 | Inr y \<Rightarrow> accepts x \<and> accepts y))))"

text \<open>Every block of a plan goes through.\<close>

definition plan_ok :: "(json \<Rightarrow> bool) \<Rightarrow> (string \<times> bool \<times> string) list \<Rightarrow> json \<Rightarrow> json \<Rightarrow> bool" where
  "plan_ok accepts plan gfs_data ecmwf_data =
     list_all (\<lambda>p. series_ok accepts (if fst (snd p) then gfs_data else ecmwf_data) (snd (snd p))) plan"

definition chart_builders ::
  "(((json \<Rightarrow> bool) \<Rightarrow> json \<Rightarrow> json \<Rightarrow> exn + figure) \<times> (string \<times> bool \<times> string) list) list" where
  "chart_builders =
     [(create_temperature_comparison_chart, temperature_plan),
      (create_precipitation_comparison_chart, precipitation_plan),
      (create_wind_comparison_chart, wind_plan),
      (create_multi_variable_dashboard, dashboard_plan)]"

text \<open>
  An alert of the shape the builder expects: an object whose \<open>properties\<close>, if any,
  is an object, whose \<open>severity\<close>, if any, is hashable, and whose \<open>geometry\<close> is
  missing, a false value or an object.
\<close>

fun is_obj :: "json \<Rightarrow> bool" where
  "is_obj (JObj kvs) = True"
| "is_obj _ = False"

fun hashable :: "json \<Rightarrow> bool" where
  "hashable (JArr xs) = False"
| "hashable (JObj kvs) = False"
| "hashable _ = True"

definition typed_alert :: "json \<Rightarrow> bool" where
  "typed_alert alert =
     (case py_get alert ''properties'' (JObj []) of
        Inl e \<Rightarrow> False
      | Inr props \<Rightarrow>
          (case py_get props ''severity'' (JStr ''Unknown'') of
             Inl e \<Rightarrow> False
           | Inr severity \<Rightarrow>
               hashable severity \<and>
               (case py_get alert ''geometry'' JNull of
                  Inl e \<Rightarrow> False
                | Inr geometry \<Rightarrow> \<not> truthy geometry \<or> is_obj geometry)))"

text \<open>A geometry whose \<open>type\<close> is \<open>Polygon\<close> or \<open>MultiPolygon\<close>.\<close>

fun polygon_geometry :: "json \<Rightarrow> bool" where
  "polygon_geometry (JObj kvs) =
     (map_of kvs ''type'' = Some (JStr ''Polygon'') \<or> map_of kvs ''type'' = Some (JStr ''MultiPolygon''))"
| "polygon_geometry _ = False"

section \<open>The RainViewer normalizers\<close>

lemma ebind_simps [simp]:
  "ebind (Inl e) f = Inl e" "ebind (Inr v) f = f v"
  by (simp_all add: ebind_def)

lemma is_frame_entry: "is_frame frame \<longleftrightarrow> (\<exists>d. frame_entry fmt host frame = Inr d)"
  by (cases frame) (auto simp: frame_entry_def split: option.splits)

lemma frame_entry_exn:
  "frame_entry fmt host frame = Inl e \<Longrightarrow> e = KeyError \<or> e = TypeError"
  by (cases frame) (auto simp: frame_entry_def split: option.splits)

lemma radar_frames_loop_prefix:
  "\<exists>ds r. radar_frames_loop fmt host items acc = (acc @ ds, r)
     \<and> list_all2 (\<lambda>f d. frame_entry fmt host f = Inr d) (takeWhile is_frame items) ds
     \<and> (r = None \<or> r = Some KeyError \<or> r = Some TypeError)"
proof (induction items arbitrary: acc)
  case Nil
  show ?case by simp
next
  case (Cons frame rest)
  show ?case
  proof (cases "frame_entry fmt host frame")
    case (Inl e)
    then have "\<not> is_frame frame" using is_frame_entry[of frame fmt host] by simp
    with Inl frame_entry_exn[OF Inl] show ?thesis by auto
  next
    case (Inr d)
    then have f: "is_frame frame" using is_frame_entry[of frame fmt host] by auto
    from Cons.IH[of "acc @ [d]"] obtain ds r where
      "radar_frames_loop fmt host rest (acc @ [d]) = ((acc @ [d]) @ ds, r)"
      "list_all2 (\<lambda>f d. frame_entry fmt host f = Inr d) (takeWhile is_frame rest) ds"
      "r = None \<or> r = Some KeyError \<or> r = Some TypeError" by blast
    with Inr f show ?thesis by auto
  qed
qed

lemma past_frames_obj:
  "past_frames radar_data = Inr pf \<Longrightarrow> \<exists>kvs. radar_data = JObj kvs"
  by (cases radar_data) (auto simp: past_frames_def)

lemma past_frames_exn:
  "past_frames radar_data = Inl e \<Longrightarrow> e = AttributeError"
  apply (cases radar_data; simp add: past_frames_def split: option.splits)
  subgoal for kvs x by (cases x; simp)
  done

lemma all_radar_frames_try_prefix:
  assumes "past_frames radar_data = Inr pf"
  shows "\<exists>host ds r. py_get radar_data ''host'' (JStr DEFAULT_HOST) = Inr host
           \<and> all_radar_frames_try fmt radar_data = (ds, r)
           \<and> list_all2 (\<lambda>f d. frame_entry fmt host f = Inr d)
                (takeWhile is_frame (case pf of JArr fs \<Rightarrow> fs | _ \<Rightarrow> [])) ds
           \<and> (r = None \<or> r = Some KeyError \<or> r = Some TypeError)"
proof -
  from past_frames_obj[OF assms] obtain kvs where kvs: "radar_data = JObj kvs" by blast
  define host where "host = (case map_of kvs ''host'' of Some v \<Rightarrow> v | None \<Rightarrow> JStr DEFAULT_HOST)"
  have h: "py_get radar_data ''host'' (JStr DEFAULT_HOST) = Inr host"
    by (simp add: kvs host_def)
  show ?thesis
  proof (cases "py_iter pf")
    case (Inl e)
    then have "e = TypeError" "\<forall>fs. pf \<noteq> JArr fs" by (cases pf; simp)+
    then have "(case pf of JArr fs \<Rightarrow> fs | _ \<Rightarrow> []) = []" by (cases pf; simp)
    with Inl h assms \<open>e = TypeError\<close> show ?thesis
      by (simp add: all_radar_frames_try_def)
  next
    case (Inr items)
    have tw: "takeWhile is_frame items = takeWhile is_frame (case pf of JArr fs \<Rightarrow> fs | _ \<Rightarrow> [])"
    proof (cases pf)
      case (JObj ps)
      with Inr show ?thesis by (cases ps) auto
    next
      case (JStr str)
      with Inr show ?thesis by (cases str) auto
    qed (use Inr in auto)
    from radar_frames_loop_prefix[of fmt host items "[]"] obtain ds r where
      "radar_frames_loop fmt host items [] = (ds, r)"
      "list_all2 (\<lambda>f d. frame_entry fmt host f = Inr d) (takeWhile is_frame items) ds"
      "r = None \<or> r = Some KeyError \<or> r = Some TypeError" by auto
    with Inr h assms tw show ?thesis
      by (simp add: all_radar_frames_try_def)
  qed
qed

lemma get_all_radar_frames_char:
  assumes "past_frames radar_data = Inr pf"
  shows "\<exists>host frames. py_get radar_data ''host'' (JStr DEFAULT_HOST) = Inr host
           \<and> get_all_radar_frames fmt radar_data = Inr frames
           \<and> list_all2 (\<lambda>f d. frame_entry fmt host f = Inr d)
                (takeWhile is_frame (case pf of JArr fs \<Rightarrow> fs | _ \<Rightarrow> [])) frames"
proof -
  from all_radar_frames_try_prefix[OF assms, of fmt] obtain host ds r where
    a: "py_get radar_data ''host'' (JStr DEFAULT_HOST) = Inr host"
       "all_radar_frames_try fmt radar_data = (ds, r)"
       "list_all2 (\<lambda>f d. frame_entry fmt host f = Inr d)
                (takeWhile is_frame (case pf of JArr fs \<Rightarrow> fs | _ \<Rightarrow> [])) ds"
       "r = None \<or> r = Some KeyError \<or> r = Some TypeError" by blast
  from a(2,4) have "get_all_radar_frames fmt radar_data = Inr ds"
    by (auto simp: get_all_radar_frames_def)
  with a show ?thesis by blast
qed

lemma get_all_radar_frames_raises:
  assumes "past_frames radar_data = Inl e"
  shows "get_all_radar_frames fmt radar_data = Inl AttributeError"
proof -
  from past_frames_exn[OF assms] have e: "e = AttributeError" .
  show ?thesis
  proof (cases "py_get radar_data ''host'' (JStr DEFAULT_HOST)")
    case (Inl x)
    then have "x = AttributeError" by (cases radar_data; simp)
    with Inl show ?thesis by (simp add: get_all_radar_frames_def all_radar_frames_try_def)
  next
    case (Inr h)
    with assms e show ?thesis by (simp add: get_all_radar_frames_def all_radar_frames_try_def)
  qed
qed

text \<open>
  C1, as the code has it. For every payload whose \<open>radar\<close> field is missing or an
  object, \<open>get_all_radar_frames\<close> returns a sequence, never absent and without raising:
  the \<open>{time, url}\<close> dicts of the entries of \<open>radar.past\<close> that come before the first
  entry that is not an object with a \<open>path\<close> and a \<open>time\<close>, in upstream order, each
  built with the tile-URL template. So every entry is mapped when every entry is such
  an object, and the sequence is empty when \<open>past\<close> is empty, missing or not a list.
\<close>

theorem get_all_radar_frames_prefix:
  assumes "past_frames radar_data = Inr pf"
  shows "\<exists>host frames. py_get radar_data ''host'' (JStr DEFAULT_HOST) = Inr host
           \<and> get_all_radar_frames fmt radar_data = Inr frames
           \<and> list_all2 (\<lambda>f d. frame_entry fmt host f = Inr d)
                (takeWhile is_frame (case pf of JArr fs \<Rightarrow> fs | _ \<Rightarrow> [])) frames
           \<and> (\<forall>fs. pf = JArr fs \<and> list_all is_frame fs \<longrightarrow>
                 list_all2 (\<lambda>f d. frame_entry fmt host f = Inr d) fs frames)
           \<and> (pf = JArr [] \<longrightarrow> frames = [])"
proof -
  from get_all_radar_frames_char[OF assms, of fmt] obtain host frames where
    a: "py_get radar_data ''host'' (JStr DEFAULT_HOST) = Inr host"
       "get_all_radar_frames fmt radar_data = Inr frames"
       "list_all2 (\<lambda>f d. frame_entry fmt host f = Inr d)
                (takeWhile is_frame (case pf of JArr fs \<Rightarrow> fs | _ \<Rightarrow> [])) frames" by blast
  have b: "list_all2 (\<lambda>f d. frame_entry fmt host f = Inr d) fs frames"
    if "pf = JArr fs \<and> list_all is_frame fs" for fs
  proof -
    from that have "takeWhile is_frame fs = fs" by (simp add: list_all_iff)
    with a(3) that show ?thesis by simp
  qed
  have c: "frames = []" if "pf = JArr []"
    using a(3) that by simp
  from a b c show ?thesis by blast
qed

theorem get_all_radar_frames_prefix_witness:
  "past_frames (JObj [(''radar'', JObj [(''past'',
        JArr [JObj [(''time'', JInt 1), (''path'', JStr ''/a'')], JObj [(''time'', JInt 2)]])])])
     = Inr (JArr [JObj [(''time'', JInt 1), (''path'', JStr ''/a'')], JObj [(''time'', JInt 2)]])
   \<and> (\<exists>host frames.
         py_get (JObj [(''radar'', JObj [(''past'',
              JArr [JObj [(''time'', JInt 1), (''path'', JStr ''/a'')], JObj [(''time'', JInt 2)]])])])
            ''host'' (JStr DEFAULT_HOST) = Inr host
       \<and> get_all_radar_frames (\<lambda>v. []) (JObj [(''radar'', JObj [(''past'',
              JArr [JObj [(''time'', JInt 1), (''path'', JStr ''/a'')], JObj [(''time'', JInt 2)]])])])
            = Inr frames
       \<and> list_all2 (\<lambda>f d. frame_entry (\<lambda>v. []) host f = Inr d)
            [JObj [(''time'', JInt 1), (''path'', JStr ''/a'')]] frames)
   \<and> past_frames (JObj [(''radar'', JObj [(''past'', JArr [JObj [(''time'', JInt 1), (''path'', JStr ''/a'')]])])])
     = Inr (JArr [JObj [(''time'', JInt 1), (''path'', JStr ''/a'')]])
   \<and> list_all is_frame [JObj [(''time'', JInt 1), (''path'', JStr ''/a'')]]
   \<and> (\<exists>host frames.
         get_all_radar_frames (\<lambda>v. [])
            (JObj [(''radar'', JObj [(''past'', JArr [JObj [(''time'', JInt 1), (''path'', JStr ''/a'')]])])])
            = Inr frames
       \<and> list_all2 (\<lambda>f d. frame_entry (\<lambda>v. []) host f = Inr d)
            [JObj [(''time'', JInt 1), (''path'', JStr ''/a'')]] frames)
   \<and> past_frames (JObj [(''radar'', JObj [(''past'', JArr [])])]) = Inr (JArr [])
   \<and> get_all_radar_frames (\<lambda>v. []) (JObj [(''radar'', JObj [(''past'', JArr [])])]) = Inr []"
proof -
  have h1: "past_frames (JObj [(''radar'', JObj [(''past'',
        JArr [JObj [(''time'', JInt 1), (''path'', JStr ''/a'')], JObj [(''time'', JInt 2)]])])])
     = Inr (JArr [JObj [(''time'', JInt 1), (''path'', JStr ''/a'')], JObj [(''time'', JInt 2)]])"
    by (simp add: past_frames_def)
  have h2: "past_frames (JObj [(''radar'', JObj [(''past'', JArr [JObj [(''time'', JInt 1), (''path'', JStr ''/a'')]])])])
     = Inr (JArr [JObj [(''time'', JInt 1), (''path'', JStr ''/a'')]])"
    by (simp add: past_frames_def)
  have h3: "past_frames (JObj [(''radar'', JObj [(''past'', JArr [])])]) = Inr (JArr [])"
    by (simp add: past_frames_def)
  have w: "list_all is_frame [JObj [(''time'', JInt 1), (''path'', JStr ''/a'')]]"
    by simp
  from get_all_radar_frames_prefix[OF h1, of "\<lambda>v. []"]
  have r1: "\<exists>host frames.
         py_get (JObj [(''radar'', JObj [(''past'',
              JArr [JObj [(''time'', JInt 1), (''path'', JStr ''/a'')], JObj [(''time'', JInt 2)]])])])
            ''host'' (JStr DEFAULT_HOST) = Inr host
       \<and> get_all_radar_frames (\<lambda>v. []) (JObj [(''radar'', JObj [(''past'',
              JArr [JObj [(''time'', JInt 1), (''path'', JStr ''/a'')], JObj [(''time'', JInt 2)]])])])
            = Inr frames
       \<and> list_all2 (\<lambda>f d. frame_entry (\<lambda>v. []) host f = Inr d)
            [JObj [(''time'', JInt 1), (''path'', JStr ''/a'')]] frames"
    by simp
  from get_all_radar_frames_prefix[OF h2, of "\<lambda>v. []"] w
  have r2: "\<exists>host frames.
         get_all_radar_frames (\<lambda>v. [])
            (JObj [(''radar'', JObj [(''past'', JArr [JObj [(''time'', JInt 1), (''path'', JStr ''/a'')]])])])
            = Inr frames
       \<and> list_all2 (\<lambda>f d. frame_entry (\<lambda>v. []) host f = Inr d)
            [JObj [(''time'', JInt 1), (''path'', JStr ''/a'')]] frames"
    by (elim exE conjE) (intro exI conjI, assumption, simp)
  from get_all_radar_frames_prefix[OF h3, of "\<lambda>v. []"]
  have r3: "get_all_radar_frames (\<lambda>v. []) (JObj [(''radar'', JObj [(''past'', JArr [])])]) = Inr []"
    by (elim exE conjE) simp
  from h1 r1 h2 w r2 h3 r3 show ?thesis by (intro conjI)
qed

text \<open>
  The sentence of C1 that an anomaly gives an empty sequence fails: the second entry
  below has no \<open>path\<close>, and the frame built from the first entry is returned.
\<close>

theorem get_all_radar_frames_counterexample:
  "\<not> is_frame (JObj [(''time'', JInt 2)])
   \<and> get_all_radar_frames (\<lambda>v. [])
       (JObj [(''radar'', JObj [(''past'',
          JArr [JObj [(''time'', JInt 1), (''path'', JStr ''/v2/radar/1'')],
                JObj [(''time'', JInt 2)]])])])
     = Inr [JObj [(''time'', JInt 1),
                  (''url'', JStr ''https://tilecache.rainviewer.com/v2/radar/1/256/{z}/{x}/{y}/2/1_1.png'')]]
   \<and> get_all_radar_frames (\<lambda>v. [])
       (JObj [(''radar'', JObj [(''past'',
          JArr [JObj [(''time'', JInt 1), (''path'', JStr ''/v2/radar/1'')],
                JObj [(''time'', JInt 2)]])])])
     \<noteq> Inr []"
  by (simp add: get_all_radar_frames_def all_radar_frames_try_def past_frames_def
        frame_entry_def tile_url_def DEFAULT_HOST_def)

lemma py_index_out_of_range:
  "i \<ge> int (length xs) \<or> i < - int (length xs) \<Longrightarrow> py_index xs i = Inl IndexError"
  by (auto simp: py_index_def)

lemma py_index_last:
  "xs \<noteq> [] \<Longrightarrow> py_index xs (-1) = Inr (last xs)"
  by (cases xs rule: rev_cases) (auto simp: py_index_def nth_append)

lemma py_index_nat:
  "k < length xs \<Longrightarrow> py_index xs (int k) = Inr (xs ! k)"
  by (auto simp: py_index_def)

text \<open>
  C4. \<open>get_radar_tile_url\<close> returns absent, and does not raise, when the frame list
  is empty (or any other false value) and when the frame list is a list and the index is
  out of its range, counted from either end; \<open>get_radar_tile_url({}, 0)\<close> is absent;
  a \<open>KeyError\<close> or \<open>IndexError\<close> of the lookups inside is turned into absent, so
  neither ever leaves the function.
\<close>

theorem get_radar_tile_url_absent:
  "(past_frames radar_data = Inr radar_frames \<and> \<not> truthy radar_frames
      \<longrightarrow> get_radar_tile_url fmt radar_data frame_index = Inr JNull)
   \<and> (past_frames radar_data = Inr (JArr xs)
        \<and> (frame_index \<ge> int (length xs) \<or> frame_index < - int (length xs))
      \<longrightarrow> get_radar_tile_url fmt radar_data frame_index = Inr JNull)
   \<and> get_radar_tile_url fmt (JObj []) 0 = Inr JNull
   \<and> (radar_tile_url_try fmt radar_data frame_index = Inl KeyError
        \<or> radar_tile_url_try fmt radar_data frame_index = Inl IndexError
      \<longrightarrow> get_radar_tile_url fmt radar_data frame_index = Inr JNull)
   \<and> get_radar_tile_url fmt radar_data frame_index \<noteq> Inl KeyError
   \<and> get_radar_tile_url fmt radar_data frame_index \<noteq> Inl IndexError"
proof -
  have a: "get_radar_tile_url fmt radar_data frame_index = Inr JNull"
    if "past_frames radar_data = Inr radar_frames \<and> \<not> truthy radar_frames"
    using that by (simp add: get_radar_tile_url_def radar_tile_url_try_def)
  have b: "get_radar_tile_url fmt radar_data frame_index = Inr JNull"
    if h: "past_frames radar_data = Inr (JArr xs)
        \<and> (frame_index \<ge> int (length xs) \<or> frame_index < - int (length xs))"
  proof -
    from h have "py_index xs frame_index = Inl IndexError"
      using py_index_out_of_range by blast
    with h show ?thesis
      by (simp add: get_radar_tile_url_def radar_tile_url_try_def)
  qed
  have c: "get_radar_tile_url fmt (JObj []) 0 = Inr JNull"
    by (simp add: get_radar_tile_url_def radar_tile_url_try_def past_frames_def)
  have d: "get_radar_tile_url fmt radar_data frame_index = Inr JNull"
    if "radar_tile_url_try fmt radar_data frame_index = Inl KeyError
        \<or> radar_tile_url_try fmt radar_data frame_index = Inl IndexError"
    using that by (auto simp: get_radar_tile_url_def)
  have e: "get_radar_tile_url fmt radar_data frame_index \<noteq> Inl KeyError"
          "get_radar_tile_url fmt radar_data frame_index \<noteq> Inl IndexError"
    by (auto simp: get_radar_tile_url_def split: sum.splits exn.splits)
  from a b c d e show ?thesis by blast
qed

theorem get_radar_tile_url_absent_witness:
  "past_frames (JObj [(''radar'', JObj [(''past'', JArr [JObj [(''time'', JInt 1), (''path'', JStr ''/a'')]])])])
     = Inr (JArr [JObj [(''time'', JInt 1), (''path'', JStr ''/a'')]])
   \<and> (3::int) \<ge> int (length [JObj [(''time'', JInt 1), (''path'', JStr ''/a'')]])
   \<and> get_radar_tile_url (\<lambda>v. [])
       (JObj [(''radar'', JObj [(''past'', JArr [JObj [(''time'', JInt 1), (''path'', JStr ''/a'')]])])]) 3
     = Inr JNull
   \<and> past_frames (JObj [(''radar'', JObj [(''past'', JArr [])])]) = Inr (JArr [])
   \<and> \<not> truthy (JArr [])
   \<and> get_radar_tile_url (\<lambda>v. []) (JObj [(''radar'', JObj [(''past'', JArr [])])]) (-1) = Inr JNull
   \<and> radar_tile_url_try (\<lambda>v. [])
       (JObj [(''radar'', JObj [(''past'', JArr [JObj [(''time'', JInt 1), (''path'', JStr ''/a'')]])])]) 3
     = Inl IndexError"
proof -
  have h1: "past_frames (JObj [(''radar'', JObj [(''past'', JArr [JObj [(''time'', JInt 1), (''path'', JStr ''/a'')]])])])
     = Inr (JArr [JObj [(''time'', JInt 1), (''path'', JStr ''/a'')]])"
    by (simp add: past_frames_def)
  have h2: "past_frames (JObj [(''radar'', JObj [(''past'', JArr [])])]) = Inr (JArr [])"
    by (simp add: past_frames_def)
  from h1
    get_radar_tile_url_absent[of
      "JObj [(''radar'', JObj [(''past'', JArr [JObj [(''time'', JInt 1), (''path'', JStr ''/a'')]])])]"
      "JArr []" "\<lambda>v. []" 3 "[JObj [(''time'', JInt 1), (''path'', JStr ''/a'')]]"]
  have r1: "get_radar_tile_url (\<lambda>v. [])
       (JObj [(''radar'', JObj [(''past'', JArr [JObj [(''time'', JInt 1), (''path'', JStr ''/a'')]])])]) 3
     = Inr JNull" by simp
  from h2
    get_radar_tile_url_absent[of "JObj [(''radar'', JObj [(''past'', JArr [])])]"
      "JArr []" "\<lambda>v. []" "-1" "[]"]
  have r2: "get_radar_tile_url (\<lambda>v. []) (JObj [(''radar'', JObj [(''past'', JArr [])])]) (-1) = Inr JNull"
    by simp
  have t: "radar_tile_url_try (\<lambda>v. [])
       (JObj [(''radar'', JObj [(''past'', JArr [JObj [(''time'', JInt 1), (''path'', JStr ''/a'')]])])]) 3
     = Inl IndexError"
    by (simp add: radar_tile_url_try_def past_frames_def py_index_def)
  from h1 h2 r1 r2 t show ?thesis by simp
qed

text \<open>
  C6. When \<open>radar.past\<close> is a non-empty list of objects that each have a \<open>path\<close> and
  a \<open>time\<close>, \<open>get_radar_tile_url(payload, -1)\<close> is the host, then the path of the
  last element, then \<open>/256/{z}/{x}/{y}/2/1_1.png\<close> with the placeholders left as
  they are; and it is the \<open>url\<close> of the last element of \<open>get_all_radar_frames(payload)\<close>.
\<close>

theorem get_radar_tile_url_last:
  assumes "past_frames radar_data = Inr (JArr fs)" and "fs \<noteq> []" and "list_all is_frame fs"
  shows "\<exists>host path frames.
           py_get radar_data ''host'' (JStr DEFAULT_HOST) = Inr host
         \<and> py_getitem_str (last fs) ''path'' = Inr path
         \<and> get_radar_tile_url fmt radar_data (-1)
             = Inr (JStr (py_format fmt host @ py_format fmt path @ ''/256/{z}/{x}/{y}/2/1_1.png''))
         \<and> get_all_radar_frames fmt radar_data = Inr frames
         \<and> length frames = length fs
         \<and> py_getitem_str (last frames) ''url'' = get_radar_tile_url fmt radar_data (-1)"
proof -
  from get_all_radar_frames_char[OF assms(1), of fmt] obtain host frames where
    a: "py_get radar_data ''host'' (JStr DEFAULT_HOST) = Inr host"
       "get_all_radar_frames fmt radar_data = Inr frames"
       "list_all2 (\<lambda>f d. frame_entry fmt host f = Inr d) (takeWhile is_frame fs) frames"
    by auto
  from assms(3) have "takeWhile is_frame fs = fs" by (simp add: list_all_iff)
  with a(3) have l2: "list_all2 (\<lambda>f d. frame_entry fmt host f = Inr d) fs frames" by simp
  then have len: "length frames = length fs" by (simp add: list_all2_lengthD)
  with assms(2) have ne: "frames \<noteq> []" by auto
  from assms(2) have lt: "length fs - 1 < length fs" by (cases fs) auto
  from list_all2_nthD[OF l2 lt] assms(2) ne len
  have le: "frame_entry fmt host (last fs) = Inr (last frames)"
    by (simp add: last_conv_nth)
  from assms(2,3) have "is_frame (last fs)" by (simp add: list_all_iff)
  then obtain kvs p t where k: "last fs = JObj kvs" "map_of kvs ''path'' = Some p"
      "map_of kvs ''time'' = Some t"
    by (cases "last fs") auto
  from k have p: "py_getitem_str (last fs) ''path'' = Inr p" by simp
  from k le have lf: "last frames = JObj [(''time'', t), (''url'', JStr (tile_url fmt host p))]"
    by (simp add: frame_entry_def)
  from assms(1,2) a(1) p have u: "get_radar_tile_url fmt radar_data (-1) = Inr (JStr (tile_url fmt host p))"
    by (simp add: get_radar_tile_url_def radar_tile_url_try_def py_index_last)
  from lf u have "py_getitem_str (last frames) ''url'' = get_radar_tile_url fmt radar_data (-1)"
    by simp
  with a(1,2) p u len show ?thesis
    by (intro exI[of _ host] exI[of _ p] exI[of _ frames]) (simp add: tile_url_def)
qed

theorem get_radar_tile_url_last_witness:
  "past_frames (JObj [(''host'', JStr ''https://h''), (''radar'', JObj [(''past'',
        JArr [JObj [(''time'', JInt 1), (''path'', JStr ''/a'')],
              JObj [(''time'', JInt 2), (''path'', JStr ''/b'')]])])])
     = Inr (JArr [JObj [(''time'', JInt 1), (''path'', JStr ''/a'')],
                  JObj [(''time'', JInt 2), (''path'', JStr ''/b'')]])
   \<and> list_all is_frame [JObj [(''time'', JInt 1), (''path'', JStr ''/a'')],
                         JObj [(''time'', JInt 2), (''path'', JStr ''/b'')]]
   \<and> get_radar_tile_url (\<lambda>v. []) (JObj [(''host'', JStr ''https://h''), (''radar'', JObj [(''past'',
        JArr [JObj [(''time'', JInt 1), (''path'', JStr ''/a'')],
              JObj [(''time'', JInt 2), (''path'', JStr ''/b'')]])])]) (-1)
     = Inr (JStr ''https://h/b/256/{z}/{x}/{y}/2/1_1.png'')"
proof -
  have h: "past_frames (JObj [(''host'', JStr ''https://h''), (''radar'', JObj [(''past'',
        JArr [JObj [(''time'', JInt 1), (''path'', JStr ''/a'')],
              JObj [(''time'', JInt 2), (''path'', JStr ''/b'')]])])])
     = Inr (JArr [JObj [(''time'', JInt 1), (''path'', JStr ''/a'')],
                  JObj [(''time'', JInt 2), (''path'', JStr ''/b'')]])"
    by (simp add: past_frames_def)
  have w: "list_all is_frame [JObj [(''time'', JInt 1), (''path'', JStr ''/a'')],
                         JObj [(''time'', JInt 2), (''path'', JStr ''/b'')]]"
    by simp
  from get_radar_tile_url_last[OF h _ w, of "\<lambda>v. []"] h w show ?thesis
    by simp
qed

text \<open>
  C10. Every frame that \<open>get_all_radar_frames\<close> returns carries the URL that
  \<open>get_radar_tile_url\<close> returns at the same index, whether or not the payload has a
  \<open>host\<close>; and when the payload has no top-level \<open>host\<close> key, that URL is the
  default host \<open>https://tilecache.rainviewer.com\<close>, the path of the frame and the
  fixed suffix.
\<close>

theorem radar_urls_agree:
  assumes "get_all_radar_frames fmt radar_data = Inr frames" and "k < length frames"
  shows "get_radar_tile_url fmt radar_data (int k) = py_getitem_str (frames ! k) ''url''
       \<and> (py_getitem_str radar_data ''host'' = Inl KeyError \<longrightarrow>
            (\<exists>fs path. past_frames radar_data = Inr (JArr fs) \<and> k < length fs
               \<and> py_getitem_str (fs ! k) ''path'' = Inr path
               \<and> py_getitem_str (frames ! k) ''url''
                   = Inr (JStr (DEFAULT_HOST @ py_format fmt path @ ''/256/{z}/{x}/{y}/2/1_1.png''))))"
proof -
  obtain pf where pf: "past_frames radar_data = Inr pf"
  proof (cases "past_frames radar_data")
    case (Inl e)
    from get_all_radar_frames_raises[OF Inl, of fmt] assms(1) show ?thesis by simp
  next
    case (Inr v)
    then show ?thesis using that by blast
  qed
  from get_all_radar_frames_char[OF pf, of fmt] assms(1) obtain host where
    a: "py_get radar_data ''host'' (JStr DEFAULT_HOST) = Inr host"
       "list_all2 (\<lambda>f d. frame_entry fmt host f = Inr d)
          (takeWhile is_frame (case pf of JArr fs \<Rightarrow> fs | _ \<Rightarrow> [])) frames"
    by auto
  from a(2) assms(2) obtain fs where fs: "pf = JArr fs"
    by (cases pf) auto
  from a(2) fs have l2: "list_all2 (\<lambda>f d. frame_entry fmt host f = Inr d) (takeWhile is_frame fs) frames"
    by simp
  then have len: "length (takeWhile is_frame fs) = length frames" by (simp add: list_all2_lengthD)
  with assms(2) have kt: "k < length (takeWhile is_frame fs)" by simp
  then have kf: "k < length fs" using length_takeWhile_le[of is_frame fs] by simp
  from kt have nth: "takeWhile is_frame fs ! k = fs ! k" by (simp add: takeWhile_nth)
  from list_all2_nthD[OF l2 kt] nth have fe: "frame_entry fmt host (fs ! k) = Inr (frames ! k)"
    by simp
  then have "is_frame (fs ! k)" using is_frame_entry by blast
  then obtain kvs p t where kv: "fs ! k = JObj kvs" "map_of kvs ''path'' = Some p"
      "map_of kvs ''time'' = Some t"
    by (cases "fs ! k") auto
  from kv fe have fk: "frames ! k = JObj [(''time'', t), (''url'', JStr (tile_url fmt host p))]"
    by (simp add: frame_entry_def)
  from kf have ne: "fs \<noteq> []" by auto
  from pf fs ne kf kv a(1) have u: "get_radar_tile_url fmt radar_data (int k) = Inr (JStr (tile_url fmt host p))"
    by (simp add: get_radar_tile_url_def radar_tile_url_try_def py_index_nat)
  have first: "get_radar_tile_url fmt radar_data (int k) = py_getitem_str (frames ! k) ''url''"
    using u fk by simp
  have second: "\<exists>fs path. past_frames radar_data = Inr (JArr fs) \<and> k < length fs
               \<and> py_getitem_str (fs ! k) ''path'' = Inr path
               \<and> py_getitem_str (frames ! k) ''url''
                   = Inr (JStr (DEFAULT_HOST @ py_format fmt path @ ''/256/{z}/{x}/{y}/2/1_1.png''))"
    if nh: "py_getitem_str radar_data ''host'' = Inl KeyError"
  proof -
    from past_frames_obj[OF pf] obtain rs where rs: "radar_data = JObj rs" by blast
    with nh have "map_of rs ''host'' = None" by (simp split: option.splits)
    with rs a(1) have "host = JStr DEFAULT_HOST" by simp
    with fk have "py_getitem_str (frames ! k) ''url''
        = Inr (JStr (DEFAULT_HOST @ py_format fmt p @ ''/256/{z}/{x}/{y}/2/1_1.png''))"
      by (simp add: tile_url_def)
    moreover from kv have "py_getitem_str (fs ! k) ''path'' = Inr p" by simp
    ultimately show ?thesis using pf fs kf
      by (intro exI[of _ fs] exI[of _ p]) simp
  qed
  from first second show ?thesis by simp
qed

theorem radar_urls_agree_witness:
  "get_all_radar_frames (\<lambda>v. []) (JObj [(''radar'', JObj [(''past'',
        JArr [JObj [(''time'', JInt 1), (''path'', JStr ''/a'')]])])])
     = Inr [JObj [(''time'', JInt 1),
                  (''url'', JStr ''https://tilecache.rainviewer.com/a/256/{z}/{x}/{y}/2/1_1.png'')]]
   \<and> py_getitem_str (JObj [(''radar'', JObj [(''past'',
        JArr [JObj [(''time'', JInt 1), (''path'', JStr ''/a'')]])])]) ''host'' = Inl KeyError
   \<and> get_radar_tile_url (\<lambda>v. []) (JObj [(''radar'', JObj [(''past'',
        JArr [JObj [(''time'', JInt 1), (''path'', JStr ''/a'')]])])]) 0
     = Inr (JStr ''https://tilecache.rainviewer.com/a/256/{z}/{x}/{y}/2/1_1.png'')"
proof -
  have h: "get_all_radar_frames (\<lambda>v. []) (JObj [(''radar'', JObj [(''past'',
        JArr [JObj [(''time'', JInt 1), (''path'', JStr ''/a'')]])])])
     = Inr [JObj [(''time'', JInt 1),
                  (''url'', JStr ''https://tilecache.rainviewer.com/a/256/{z}/{x}/{y}/2/1_1.png'')]]"
    by (simp add: get_all_radar_frames_def all_radar_frames_try_def past_frames_def
        frame_entry_def tile_url_def DEFAULT_HOST_def)
  from radar_urls_agree[OF h, of 0] h show ?thesis
    by simp
qed

section \<open>The fetch adapters\<close>

lemma http_get_simps:
  "fst (http_get T req hist) = (case T hist req of None \<Rightarrow> JNull | Some body \<Rightarrow> body)"
  "snd (http_get T req hist) = hist @ [req]"
  by (simp_all add: http_get_def)

lemma make_nws_request_simps:
  "fst (make_nws_request T url hist) = (case T hist (nws_request url) of None \<Rightarrow> JNull | Some body \<Rightarrow> body)"
  "snd (make_nws_request T url hist) = hist @ [nws_request url]"
  by (simp_all add: make_nws_request_def http_get_def)

lemma fetch_model_forecast_simps:
  "fst (fetch_model_forecast T la lo m vs hist)
     = (case T hist (model_request la lo m vs) of None \<Rightarrow> JNull | Some body \<Rightarrow> body)"
  "snd (fetch_model_forecast T la lo m vs hist) = hist @ [model_request la lo m vs]"
  by (simp_all add: fetch_model_forecast_def http_get_def)

text \<open>
  C5. When the points request fails, \<open>fetch_forecast\<close> returns absent and the points
  request is the only request it has made; the same holds whenever the points payload is
  a false value. A second request is made only after a points request that succeeded,
  and its URL is the \<open>properties.forecast\<close> of the points payload.
\<close>

theorem fetch_forecast_short_circuit:
  "(T hist (nws_request (points_url fmt latitude longitude)) = None \<longrightarrow>
      fetch_forecast fmt T latitude longitude hist
        = (Inr JNull, hist @ [nws_request (points_url fmt latitude longitude)]))
   \<and> (\<not> truthy (fst (make_nws_request T (points_url fmt latitude longitude) hist)) \<longrightarrow>
      fetch_forecast fmt T latitude longitude hist
        = (Inr JNull, hist @ [nws_request (points_url fmt latitude longitude)]))
   \<and> (snd (fetch_forecast fmt T latitude longitude hist)
         = hist @ [nws_request (points_url fmt latitude longitude)]
       \<or> (\<exists>body forecast_url.
             T hist (nws_request (points_url fmt latitude longitude)) = Some body
           \<and> truthy body
           \<and> ebind (py_getitem_str body ''properties'') (\<lambda>p. py_getitem_str p ''forecast'')
               = Inr forecast_url
           \<and> snd (fetch_forecast fmt T latitude longitude hist)
               = hist @ [nws_request (points_url fmt latitude longitude), nws_request forecast_url]))"
proof -
  let ?req = "nws_request (points_url fmt latitude longitude)"
  have a: "fetch_forecast fmt T latitude longitude hist = (Inr JNull, hist @ [?req])"
    if "\<not> truthy (fst (make_nws_request T (points_url fmt latitude longitude) hist))"
    using that by (simp add: fetch_forecast_def split_def Let_def make_nws_request_simps)
  have b: "fetch_forecast fmt T latitude longitude hist = (Inr JNull, hist @ [?req])"
    if "T hist ?req = None"
    using that a by (simp add: make_nws_request_simps)
  have c: "snd (fetch_forecast fmt T latitude longitude hist) = hist @ [?req]
       \<or> (\<exists>body forecast_url.
             T hist ?req = Some body \<and> truthy body
           \<and> ebind (py_getitem_str body ''properties'') (\<lambda>p. py_getitem_str p ''forecast'')
               = Inr forecast_url
           \<and> snd (fetch_forecast fmt T latitude longitude hist)
               = hist @ [?req, nws_request forecast_url])"
  proof (cases "T hist ?req")
    case None
    with b show ?thesis by simp
  next
    case (Some body)
    show ?thesis
    proof (cases "truthy body")
      case False
      with Some a show ?thesis by (simp add: make_nws_request_simps)
    next
      case True
      show ?thesis
      proof (cases "ebind (py_getitem_str body ''properties'') (\<lambda>p. py_getitem_str p ''forecast'')")
        case (Inl e)
        with Some True show ?thesis
          by (simp add: fetch_forecast_def split_def Let_def make_nws_request_simps)
      next
        case (Inr forecast_url)
        with Some True have "snd (fetch_forecast fmt T latitude longitude hist)
               = hist @ [?req, nws_request forecast_url]"
          by (simp add: fetch_forecast_def split_def Let_def make_nws_request_simps)
        with Some True Inr show ?thesis by simp
      qed
    qed
  qed
  from a b c show ?thesis by simp
qed

theorem fetch_forecast_short_circuit_witness:
  "(\<lambda>h r. None) ([]::request list) (nws_request (points_url (\<lambda>v. ''0'') 40 (-74))) = (None::json option)
   \<and> fetch_forecast (\<lambda>v. ''0'') (\<lambda>h r. None) 40 (-74) []
       = (Inr JNull, [nws_request (points_url (\<lambda>v. ''0'') 40 (-74))])"
  using fetch_forecast_short_circuit[of "\<lambda>h r. None" "[]" "\<lambda>v. ''0''" 40 "-74"]
  by simp

text \<open>
  C2 asks that \<open>fetch_forecast\<close> return absent when a payload lacks \<open>properties\<close>,
  \<open>forecast\<close> or \<open>periods\<close>. The subscripts are not guarded, unlike the
  \<open>features\<close> test of \<open>fetch_alerts\<close>: in each of the three cases a \<open>KeyError\<close>
  leaves the function.
\<close>

theorem fetch_forecast_raises:
  "fst (fetch_forecast (\<lambda>v. ''0'') (\<lambda>h r. Some (JObj [(''type'', JStr ''Feature'')])) 40 (-74) [])
     = Inl KeyError
   \<and> fst (fetch_forecast (\<lambda>v. ''0'') (\<lambda>h r. Some (JObj [(''properties'', JObj [(''gridId'', JStr ''OKX'')])])) 40 (-74) [])
     = Inl KeyError
   \<and> fst (fetch_forecast (\<lambda>v. ''0'')
        (\<lambda>h r. if h = [] then Some (JObj [(''properties'', JObj [(''forecast'', JStr ''https://f'')])])
                else Some (JObj [(''properties'', JObj [(''units'', JStr ''us'')])])) 40 (-74) [])
     = Inl KeyError"
  by (simp add: fetch_forecast_def split_def Let_def make_nws_request_simps)

text \<open>
  C7. \<open>fetch_multi_model_comparison\<close> returns a dict with exactly the keys \<open>gfs\<close> and
  \<open>ecmwf\<close>, in that order, each holding the result of \<open>fetch_model_forecast\<close> for
  its model, GFS first. The value under a key depends only on the upstream's answer to
  that model's request: two upstreams that answer one model's request alike give the
  same value under its key, whatever they answer to the other; in particular a failed
  fetch of one model leaves the other model's data in the result.
\<close>

theorem fetch_multi_model_comparison_independent:
  "fetch_multi_model_comparison T la lo vs hist =
     (JObj [(''gfs'', fst (fetch_model_forecast T la lo ''gfs_seamless'' vs hist)),
            (''ecmwf'', fst (fetch_model_forecast T la lo ''ecmwf_ifs'' vs
                               (snd (fetch_model_forecast T la lo ''gfs_seamless'' vs hist))))],
      hist @ [model_request la lo ''gfs_seamless'' vs, model_request la lo ''ecmwf_ifs'' vs])
   \<and> (T (hist @ [model_request la lo ''gfs_seamless'' vs]) (model_request la lo ''ecmwf_ifs'' vs)
        = T' (hist @ [model_request la lo ''gfs_seamless'' vs]) (model_request la lo ''ecmwf_ifs'' vs)
      \<longrightarrow> py_getitem_str (fst (fetch_multi_model_comparison T la lo vs hist)) ''ecmwf''
          = py_getitem_str (fst (fetch_multi_model_comparison T' la lo vs hist)) ''ecmwf'')
   \<and> (T hist (model_request la lo ''gfs_seamless'' vs) = T' hist (model_request la lo ''gfs_seamless'' vs)
      \<longrightarrow> py_getitem_str (fst (fetch_multi_model_comparison T la lo vs hist)) ''gfs''
          = py_getitem_str (fst (fetch_multi_model_comparison T' la lo vs hist)) ''gfs'')
   \<and> (T hist (model_request la lo ''gfs_seamless'' vs) = None
        \<and> T (hist @ [model_request la lo ''gfs_seamless'' vs]) (model_request la lo ''ecmwf_ifs'' vs) = Some e
      \<longrightarrow> fst (fetch_multi_model_comparison T la lo vs hist) = JObj [(''gfs'', JNull), (''ecmwf'', e)])
   \<and> (T hist (model_request la lo ''gfs_seamless'' vs) = Some g
        \<and> T (hist @ [model_request la lo ''gfs_seamless'' vs]) (model_request la lo ''ecmwf_ifs'' vs) = None
      \<longrightarrow> fst (fetch_multi_model_comparison T la lo vs hist) = JObj [(''gfs'', g), (''ecmwf'', JNull)])"
  by (simp add: fetch_multi_model_comparison_def split_def Let_def fetch_model_forecast_simps)

theorem fetch_multi_model_comparison_independent_witness:
  "(\<lambda>h r. if h = [] then None else Some (JObj [(''hourly'', JObj [])]))
      ([] @ [model_request 40 (-74) ''gfs_seamless'' None]) (model_request 40 (-74) ''ecmwf_ifs'' None)
    = (\<lambda>h r. Some (JObj [(''hourly'', JObj [])]))
      ([] @ [model_request 40 (-74) ''gfs_seamless'' None]) (model_request 40 (-74) ''ecmwf_ifs'' None)
   \<and> py_getitem_str (fst (fetch_multi_model_comparison
         (\<lambda>h r. if h = [] then None else Some (JObj [(''hourly'', JObj [])])) 40 (-74) None [])) ''ecmwf''
     = py_getitem_str (fst (fetch_multi_model_comparison
         (\<lambda>h r. Some (JObj [(''hourly'', JObj [])])) 40 (-74) None [])) ''ecmwf''
   \<and> fst (fetch_multi_model_comparison
         (\<lambda>h r. if h = [] then None else Some (JObj [(''hourly'', JObj [])])) 40 (-74) None [])
     = JObj [(''gfs'', JNull), (''ecmwf'', JObj [(''hourly'', JObj [])])]"
  using fetch_multi_model_comparison_independent[of
     "\<lambda>h r. if h = [] then None else Some (JObj [(''hourly'', JObj [])])" 40 "-74" None "[]"
     "\<lambda>h r. Some (JObj [(''hourly'', JObj [])])" "JObj [(''hourly'', JObj [])]"]
    fetch_multi_model_comparison_independent[of
     "\<lambda>h r. Some (JObj [(''hourly'', JObj [])])" 40 "-74" None "[]"
     "\<lambda>h r. Some (JObj [(''hourly'', JObj [])])" "JObj [(''hourly'', JObj [])]"]
  by (simp add: fetch_model_forecast_simps)




section \<open>The chart builders\<close>

lemma ebind_Inr_iff: "ebind m f = Inr r \<longleftrightarrow> (\<exists>v. m = Inr v \<and> f v = Inr r)"
  by (cases m) simp_all

lemma hourly_trace_falsy:
  "\<not> truthy data \<Longrightarrow> hourly_trace accepts data var kind name color attrs cell = Inr []"
  by (simp add: hourly_trace_def)

lemma hourly_trace_names:
  assumes "hourly_trace accepts data var kind name color attrs cell = Inr ts"
  shows "map tr_name ts = (if has_series data var then [name] else [])"
proof (cases "truthy data")
  case False
  with assms show ?thesis by (simp add: hourly_trace_def has_series_def)
next
  case True
  show ?thesis
  proof (cases data)
    case (JObj kvs)
    with assms True show ?thesis
      by (auto simp: hourly_trace_def has_series_def new_trace_def ebind_Inr_iff
               split: option.splits if_splits sum.splits)
  next
    case (JArr xs)
    with assms True show ?thesis
      by (auto simp: hourly_trace_def has_series_def split: if_splits)
  next
    case (JStr s)
    with assms True show ?thesis
      by (auto simp: hourly_trace_def has_series_def split: if_splits)
  qed (use assms True in \<open>auto simp: hourly_trace_def has_series_def\<close>)
qed

lemma hourly_trace_present:
  assumes "data = JObj kvs" "map_of kvs ''hourly'' = Some (JObj h)"
    "map_of h ''time'' = Some x" "map_of h var = Some y" "accepts x" "accepts y"
  shows "hourly_trace accepts data var kind name color attrs cell
           = Inr [\<lparr>tr_kind = kind, tr_x = x, tr_y = y, tr_name = name, tr_color = color,
                    tr_attrs = attrs, tr_cell = cell\<rparr>]"
proof -
  from assms(2) have "kvs \<noteq> []" by auto
  with assms show ?thesis by (simp add: hourly_trace_def new_trace_def)
qed

lemma expected_names_Cons:
  "expected_names (p # plan) g e
     = (if has_series (if fst (snd p) then g else e) (snd (snd p)) then [fst p] else [])
       @ expected_names plan g e"
  by (simp add: expected_names_def drawn_def)

lemma expected_names_Nil: "expected_names [] g e = []"
  by (simp add: expected_names_def)

lemma temperature_names:
  assumes "create_temperature_comparison_chart accepts g e = Inr fig"
  shows "map tr_name (fig_traces fig) = expected_names temperature_plan g e"
proof -
  from assms obtain t1 t2 where
    t: "hourly_trace accepts g ''temperature_2m'' Scatter ''GFS'' GFS_COLOR
              [(''mode'', ''lines''), (''line.width'', ''2'')] None = Inr t1"
       "hourly_trace accepts e ''temperature_2m'' Scatter ''ECMWF'' ECMWF_COLOR
              [(''mode'', ''lines''), (''line.width'', ''2'')] None = Inr t2"
       "fig_traces fig = t1 @ t2"
    unfolding create_temperature_comparison_chart_def ebind_Inr_iff by auto
  show ?thesis
    unfolding t(3) temperature_plan_def expected_names_Cons expected_names_Nil map_append
      hourly_trace_names[OF t(1)] hourly_trace_names[OF t(2)]
    by simp
qed

lemma temperature_absent:
  assumes "\<not> truthy g" "\<not> truthy e"
  shows "\<exists>fig. create_temperature_comparison_chart accepts g e = Inr fig \<and> fig_traces fig = []"
  using assms by (simp add: create_temperature_comparison_chart_def hourly_trace_falsy)

lemma precipitation_names:
  assumes "create_precipitation_comparison_chart accepts g e = Inr fig"
  shows "map tr_name (fig_traces fig) = expected_names precipitation_plan g e"
proof -
  from assms obtain t1 t2 where
    t: "hourly_trace accepts g ''precipitation'' Bar ''GFS'' GFS_COLOR
              [(''opacity'', ''0.7'')] None = Inr t1"
       "hourly_trace accepts e ''precipitation'' Bar ''ECMWF'' ECMWF_COLOR
              [(''opacity'', ''0.7'')] None = Inr t2"
       "fig_traces fig = t1 @ t2"
    unfolding create_precipitation_comparison_chart_def ebind_Inr_iff by auto
  show ?thesis
    unfolding t(3) precipitation_plan_def expected_names_Cons expected_names_Nil map_append
      hourly_trace_names[OF t(1)] hourly_trace_names[OF t(2)]
    by simp
qed

lemma precipitation_absent:
  assumes "\<not> truthy g" "\<not> truthy e"
  shows "\<exists>fig. create_precipitation_comparison_chart accepts g e = Inr fig \<and> fig_traces fig = []"
  using assms by (simp add: create_precipitation_comparison_chart_def hourly_trace_falsy)

lemma wind_names:
  assumes "create_wind_comparison_chart accepts g e = Inr fig"
  shows "map tr_name (fig_traces fig) = expected_names wind_plan g e"
proof -
  from assms obtain t1 t2 where
    t: "hourly_trace accepts g ''wind_speed_10m'' Scatter ''GFS'' GFS_COLOR
              [(''mode'', ''lines''), (''line.width'', ''2''), (''fill'', ''tozeroy''),
               (''fillcolor'', ''rgba(31, 119, 180, 0.2)'')] None = Inr t1"
       "hourly_trace accepts e ''wind_speed_10m'' Scatter ''ECMWF'' ECMWF_COLOR
              [(''mode'', ''lines''), (''line.width'', ''2''), (''fill'', ''tozeroy''),
               (''fillcolor'', ''rgba(255, 127, 14, 0.2)'')] None = Inr t2"
       "fig_traces fig = t1 @ t2"
    unfolding create_wind_comparison_chart_def ebind_Inr_iff by auto
  show ?thesis
    unfolding t(3) wind_plan_def expected_names_Cons expected_names_Nil map_append
      hourly_trace_names[OF t(1)] hourly_trace_names[OF t(2)]
    by simp
qed

lemma wind_absent:
  assumes "\<not> truthy g" "\<not> truthy e"
  shows "\<exists>fig. create_wind_comparison_chart accepts g e = Inr fig \<and> fig_traces fig = []"
  using assms by (simp add: create_wind_comparison_chart_def hourly_trace_falsy)

lemma dashboard_names:
  assumes "create_multi_variable_dashboard accepts g e = Inr fig"
  shows "map tr_name (fig_traces fig) = expected_names dashboard_plan g e"
proof -
  from assms obtain t1 t2 t3 t4 t5 t6 t7 t8 where
    t: "hourly_trace accepts g ''temperature_2m'' Scatter ''GFS'' GFS_COLOR
              [(''mode'', ''lines''), (''showlegend'', ''True'')] (Some (1, 1)) = Inr t1"
       "hourly_trace accepts e ''temperature_2m'' Scatter ''ECMWF'' ECMWF_COLOR
              [(''mode'', ''lines''), (''showlegend'', ''True'')] (Some (1, 1)) = Inr t2"
       "hourly_trace accepts g ''precipitation'' Bar ''GFS Precip'' GFS_COLOR
              [(''opacity'', ''0.7''), (''showlegend'', ''False'')] (Some (1, 2)) = Inr t3"
       "hourly_trace accepts e ''precipitation'' Bar ''ECMWF Precip'' ECMWF_COLOR
              [(''opacity'', ''0.7''), (''showlegend'', ''False'')] (Some (1, 2)) = Inr t4"
       "hourly_trace accepts g ''wind_speed_10m'' Scatter ''GFS Wind'' GFS_COLOR
              [(''mode'', ''lines''), (''showlegend'', ''False'')] (Some (2, 1)) = Inr t5"
       "hourly_trace accepts e ''wind_speed_10m'' Scatter ''ECMWF Wind'' ECMWF_COLOR
              [(''mode'', ''lines''), (''showlegend'', ''False'')] (Some (2, 1)) = Inr t6"
       "hourly_trace accepts g ''relative_humidity_2m'' Scatter ''GFS Humidity'' GFS_COLOR
              [(''mode'', ''lines''), (''showlegend'', ''False'')] (Some (2, 2)) = Inr t7"
       "hourly_trace accepts e ''relative_humidity_2m'' Scatter ''ECMWF Humidity'' ECMWF_COLOR
              [(''mode'', ''lines''), (''showlegend'', ''False'')] (Some (2, 2)) = Inr t8"
       "fig_traces fig = t1 @ t2 @ t3 @ t4 @ t5 @ t6 @ t7 @ t8"
    unfolding create_multi_variable_dashboard_def ebind_Inr_iff
    by (elim exE conjE) (simp only: sum.inject, auto)
  show ?thesis
    unfolding t(9) dashboard_plan_def expected_names_Cons expected_names_Nil map_append
      hourly_trace_names[OF t(1)] hourly_trace_names[OF t(2)] hourly_trace_names[OF t(3)] hourly_trace_names[OF t(4)] hourly_trace_names[OF t(5)] hourly_trace_names[OF t(6)] hourly_trace_names[OF t(7)] hourly_trace_names[OF t(8)]
    by (simp only: fst_conv snd_conv if_True if_False append_Nil2 append_assoc)
qed

lemma dashboard_absent:
  assumes "\<not> truthy g" "\<not> truthy e"
  shows "\<exists>fig. create_multi_variable_dashboard accepts g e = Inr fig \<and> fig_traces fig = []"
  using assms by (simp add: create_multi_variable_dashboard_def hourly_trace_falsy)

lemma temperature_ecmwf_only:
  assumes "\<not> truthy gfs" "ecmwf = JObj kvs" "map_of kvs ''hourly'' = Some (JObj h)"
    "map_of h ''time'' = Some x" "map_of h ''temperature_2m'' = Some y" "accepts x" "accepts y"
  shows "\<exists>fig t. create_temperature_comparison_chart accepts gfs ecmwf = Inr fig
           \<and> fig_traces fig = [t] \<and> tr_name t = ''ECMWF'' \<and> tr_x t = x \<and> tr_y t = y"
  using assms(1) hourly_trace_present[OF assms(2-7)]
  by (simp add: create_temperature_comparison_chart_def hourly_trace_falsy)

lemma series_ok_falsy: "\<not> truthy data \<Longrightarrow> series_ok accepts data var"
  by (simp add: series_ok_def)

lemma hourly_trace_returns:
  "(\<exists>ts. hourly_trace accepts data var kind name color attrs cell = Inr ts)
     \<longleftrightarrow> series_ok accepts data var"
proof (cases "truthy data")
  case False
  then show ?thesis by (simp add: hourly_trace_def series_ok_def)
next
  case True
  show ?thesis
  proof (cases data)
    case (JObj kvs)
    with True show ?thesis
      by (auto simp: hourly_trace_def series_ok_def new_trace_def ebind_Inr_iff
               split: option.splits sum.splits)
  next
    case (JArr xs)
    with True show ?thesis
      by (auto simp: hourly_trace_def series_ok_def)
  next
    case (JStr str)
    with True show ?thesis
      by (auto simp: hourly_trace_def series_ok_def)
  qed (use True in \<open>auto simp: hourly_trace_def series_ok_def\<close>)
qed

lemma temperature_returns:
  "(\<exists>fig. create_temperature_comparison_chart accepts g e = Inr fig) \<longleftrightarrow> plan_ok accepts temperature_plan g e"
proof
  assume "\<exists>fig. create_temperature_comparison_chart accepts g e = Inr fig"
  then obtain fig where "create_temperature_comparison_chart accepts g e = Inr fig" ..
  then obtain t1 t2 where
    t: "hourly_trace accepts g ''temperature_2m'' Scatter ''GFS'' GFS_COLOR
              [(''mode'', ''lines''), (''line.width'', ''2'')] None = Inr t1"
       "hourly_trace accepts e ''temperature_2m'' Scatter ''ECMWF'' ECMWF_COLOR
              [(''mode'', ''lines''), (''line.width'', ''2'')] None = Inr t2"
    unfolding create_temperature_comparison_chart_def ebind_Inr_iff
    by (elim exE conjE)
    from hourly_trace_returns[THEN iffD1, OF exI, OF t(1)] have o1: "series_ok accepts g ''temperature_2m''" .
    from hourly_trace_returns[THEN iffD1, OF exI, OF t(2)] have o2: "series_ok accepts e ''temperature_2m''" .
  from o1 o2 show "plan_ok accepts temperature_plan g e"
    by (simp add: plan_ok_def temperature_plan_def)
next
  assume "plan_ok accepts temperature_plan g e"
  then have R: "series_ok accepts g ''temperature_2m'' \<and> series_ok accepts e ''temperature_2m''"
    by (simp add: plan_ok_def temperature_plan_def)
    from R have "series_ok accepts g ''temperature_2m''" by simp
    from hourly_trace_returns[THEN iffD2, OF this] obtain t1 where t1: "hourly_trace accepts g ''temperature_2m'' Scatter ''GFS'' GFS_COLOR
              [(''mode'', ''lines''), (''line.width'', ''2'')] None = Inr t1" ..
    from R have "series_ok accepts e ''temperature_2m''" by simp
    from hourly_trace_returns[THEN iffD2, OF this] obtain t2 where t2: "hourly_trace accepts e ''temperature_2m'' Scatter ''ECMWF'' ECMWF_COLOR
              [(''mode'', ''lines''), (''line.width'', ''2'')] None = Inr t2" ..
  show "\<exists>fig. create_temperature_comparison_chart accepts g e = Inr fig"
    unfolding create_temperature_comparison_chart_def by (simp only: t1 t2 ebind_simps) blast
qed

lemma precipitation_returns:
  "(\<exists>fig. create_precipitation_comparison_chart accepts g e = Inr fig) \<longleftrightarrow> plan_ok accepts precipitation_plan g e"
proof
  assume "\<exists>fig. create_precipitation_comparison_chart accepts g e = Inr fig"
  then obtain fig where "create_precipitation_comparison_chart accepts g e = Inr fig" ..
  then obtain t1 t2 where
    t: "hourly_trace accepts g ''precipitation'' Bar ''GFS'' GFS_COLOR
              [(''opacity'', ''0.7'')] None = Inr t1"
       "hourly_trace accepts e ''precipitation'' Bar ''ECMWF'' ECMWF_COLOR
              [(''opacity'', ''0.7'')] None = Inr t2"
    unfolding create_precipitation_comparison_chart_def ebind_Inr_iff
    by (elim exE conjE)
    from hourly_trace_returns[THEN iffD1, OF exI, OF t(1)] have o1: "series_ok accepts g ''precipitation''" .
    from hourly_trace_returns[THEN iffD1, OF exI, OF t(2)] have o2: "series_ok accepts e ''precipitation''" .
  from o1 o2 show "plan_ok accepts precipitation_plan g e"
    by (simp add: plan_ok_def precipitation_plan_def)
next
  assume "plan_ok accepts precipitation_plan g e"
  then have R: "series_ok accepts g ''precipitation'' \<and> series_ok accepts e ''precipitation''"
    by (simp add: plan_ok_def precipitation_plan_def)
    from R have "series_ok accepts g ''precipitation''" by simp
    from hourly_trace_returns[THEN iffD2, OF this] obtain t1 where t1: "hourly_trace accepts g ''precipitation'' Bar ''GFS'' GFS_COLOR
              [(''opacity'', ''0.7'')] None = Inr t1" ..
    from R have "series_ok accepts e ''precipitation''" by simp
    from hourly_trace_returns[THEN iffD2, OF this] obtain t2 where t2: "hourly_trace accepts e ''precipitation'' Bar ''ECMWF'' ECMWF_COLOR
              [(''opacity'', ''0.7'')] None = Inr t2" ..
  show "\<exists>fig. create_precipitation_comparison_chart accepts g e = Inr fig"
    unfolding create_precipitation_comparison_chart_def by (simp only: t1 t2 ebind_simps) blast
qed

lemma wind_returns:
  "(\<exists>fig. create_wind_comparison_chart accepts g e = Inr fig) \<longleftrightarrow> plan_ok accepts wind_plan g e"
proof
  assume "\<exists>fig. create_wind_comparison_chart accepts g e = Inr fig"
  then obtain fig where "create_wind_comparison_chart accepts g e = Inr fig" ..
  then obtain t1 t2 where
    t: "hourly_trace accepts g ''wind_speed_10m'' Scatter ''GFS'' GFS_COLOR
              [(''mode'', ''lines''), (''line.width'', ''2''), (''fill'', ''tozeroy''),
               (''fillcolor'', ''rgba(31, 119, 180, 0.2)'')] None = Inr t1"
       "hourly_trace accepts e ''wind_speed_10m'' Scatter ''ECMWF'' ECMWF_COLOR
              [(''mode'', ''lines''), (''line.width'', ''2''), (''fill'', ''tozeroy''),
               (''fillcolor'', ''rgba(255, 127, 14, 0.2)'')] None = Inr t2"
    unfolding create_wind_comparison_chart_def ebind_Inr_iff
    by (elim exE conjE)
    from hourly_trace_returns[THEN iffD1, OF exI, OF t(1)] have o1: "series_ok accepts g ''wind_speed_10m''" .
    from hourly_trace_returns[THEN iffD1, OF exI, OF t(2)] have o2: "series_ok accepts e ''wind_speed_10m''" .
  from o1 o2 show "plan_ok accepts wind_plan g e"
    by (simp add: plan_ok_def wind_plan_def)
next
  assume "plan_ok accepts wind_plan g e"
  then have R: "series_ok accepts g ''wind_speed_10m'' \<and> series_ok accepts e ''wind_speed_10m''"
    by (simp add: plan_ok_def wind_plan_def)
    from R have "series_ok accepts g ''wind_speed_10m''" by simp
    from hourly_trace_returns[THEN iffD2, OF this] obtain t1 where t1: "hourly_trace accepts g ''wind_speed_10m'' Scatter ''GFS'' GFS_COLOR
              [(''mode'', ''lines''), (''line.width'', ''2''), (''fill'', ''tozeroy''),
               (''fillcolor'', ''rgba(31, 119, 180, 0.2)'')] None = Inr t1" ..
    from R have "series_ok accepts e ''wind_speed_10m''" by simp
    from hourly_trace_returns[THEN iffD2, OF this] obtain t2 where t2: "hourly_trace accepts e ''wind_speed_10m'' Scatter ''ECMWF'' ECMWF_COLOR
              [(''mode'', ''lines''), (''line.width'', ''2''), (''fill'', ''tozeroy''),
               (''fillcolor'', ''rgba(255, 127, 14, 0.2)'')] None = Inr t2" ..
  show "\<exists>fig. create_wind_comparison_chart accepts g e = Inr fig"
    unfolding create_wind_comparison_chart_def by (simp only: t1 t2 ebind_simps) blast
qed

lemma dashboard_returns:
  "(\<exists>fig. create_multi_variable_dashboard accepts g e = Inr fig) \<longleftrightarrow> plan_ok accepts dashboard_plan g e"
proof
  assume "\<exists>fig. create_multi_variable_dashboard accepts g e = Inr fig"
  then obtain fig where "create_multi_variable_dashboard accepts g e = Inr fig" ..
  then obtain t1 t2 t3 t4 t5 t6 t7 t8 where
    t: "hourly_trace accepts g ''temperature_2m'' Scatter ''GFS'' GFS_COLOR
              [(''mode'', ''lines''), (''showlegend'', ''True'')] (Some (1, 1)) = Inr t1"
       "hourly_trace accepts e ''temperature_2m'' Scatter ''ECMWF'' ECMWF_COLOR
              [(''mode'', ''lines''), (''showlegend'', ''True'')] (Some (1, 1)) = Inr t2"
       "hourly_trace accepts g ''precipitation'' Bar ''GFS Precip'' GFS_COLOR
              [(''opacity'', ''0.7''), (''showlegend'', ''False'')] (Some (1, 2)) = Inr t3"
       "hourly_trace accepts e ''precipitation'' Bar ''ECMWF Precip'' ECMWF_COLOR
              [(''opacity'', ''0.7''), (''showlegend'', ''False'')] (Some (1, 2)) = Inr t4"
       "hourly_trace accepts g ''wind_speed_10m'' Scatter ''GFS Wind'' GFS_COLOR
              [(''mode'', ''lines''), (''showlegend'', ''False'')] (Some (2, 1)) = Inr t5"
       "hourly_trace accepts e ''wind_speed_10m'' Scatter ''ECMWF Wind'' ECMWF_COLOR
              [(''mode'', ''lines''), (''showlegend'', ''False'')] (Some (2, 1)) = Inr t6"
       "hourly_trace accepts g ''relative_humidity_2m'' Scatter ''GFS Humidity'' GFS_COLOR
              [(''mode'', ''lines''), (''showlegend'', ''False'')] (Some (2, 2)) = Inr t7"
       "hourly_trace accepts e ''relative_humidity_2m'' Scatter ''ECMWF Humidity'' ECMWF_COLOR
              [(''mode'', ''lines''), (''showlegend'', ''False'')] (Some (2, 2)) = Inr t8"
    unfolding create_multi_variable_dashboard_def ebind_Inr_iff
    by (elim exE conjE)
    from hourly_trace_returns[THEN iffD1, OF exI, OF t(1)] have o1: "series_ok accepts g ''temperature_2m''" .
    from hourly_trace_returns[THEN iffD1, OF exI, OF t(2)] have o2: "series_ok accepts e ''temperature_2m''" .
    from hourly_trace_returns[THEN iffD1, OF exI, OF t(3)] have o3: "series_ok accepts g ''precipitation''" .
    from hourly_trace_returns[THEN iffD1, OF exI, OF t(4)] have o4: "series_ok accepts e ''precipitation''" .
    from hourly_trace_returns[THEN iffD1, OF exI, OF t(5)] have o5: "series_ok accepts g ''wind_speed_10m''" .
    from hourly_trace_returns[THEN iffD1, OF exI, OF t(6)] have o6: "series_ok accepts e ''wind_speed_10m''" .
    from hourly_trace_returns[THEN iffD1, OF exI, OF t(7)] have o7: "series_ok accepts g ''relative_humidity_2m''" .
    from hourly_trace_returns[THEN iffD1, OF exI, OF t(8)] have o8: "series_ok accepts e ''relative_humidity_2m''" .
  from o1 o2 o3 o4 o5 o6 o7 o8 show "plan_ok accepts dashboard_plan g e"
    by (simp add: plan_ok_def dashboard_plan_def)
next
  assume "plan_ok accepts dashboard_plan g e"
  then have R: "series_ok accepts g ''temperature_2m'' \<and> series_ok accepts e ''temperature_2m'' \<and> series_ok accepts g ''precipitation'' \<and> series_ok accepts e ''precipitation'' \<and> series_ok accepts g ''wind_speed_10m'' \<and> series_ok accepts e ''wind_speed_10m'' \<and> series_ok accepts g ''relative_humidity_2m'' \<and> series_ok accepts e ''relative_humidity_2m''"
    by (simp add: plan_ok_def dashboard_plan_def)
    from R have "series_ok accepts g ''temperature_2m''" by simp
    from hourly_trace_returns[THEN iffD2, OF this] obtain t1 where t1: "hourly_trace accepts g ''temperature_2m'' Scatter ''GFS'' GFS_COLOR
              [(''mode'', ''lines''), (''showlegend'', ''True'')] (Some (1, 1)) = Inr t1" ..
    from R have "series_ok accepts e ''temperature_2m''" by simp
    from hourly_trace_returns[THEN iffD2, OF this] obtain t2 where t2: "hourly_trace accepts e ''temperature_2m'' Scatter ''ECMWF'' ECMWF_COLOR
              [(''mode'', ''lines''), (''showlegend'', ''True'')] (Some (1, 1)) = Inr t2" ..
    from R have "series_ok accepts g ''precipitation''" by simp
    from hourly_trace_returns[THEN iffD2, OF this] obtain t3 where t3: "hourly_trace accepts g ''precipitation'' Bar ''GFS Precip'' GFS_COLOR
              [(''opacity'', ''0.7''), (''showlegend'', ''False'')] (Some (1, 2)) = Inr t3" ..
    from R have "series_ok accepts e ''precipitation''" by simp
    from hourly_trace_returns[THEN iffD2, OF this] obtain t4 where t4: "hourly_trace accepts e ''precipitation'' Bar ''ECMWF Precip'' ECMWF_COLOR
              [(''opacity'', ''0.7''), (''showlegend'', ''False'')] (Some (1, 2)) = Inr t4" ..
    from R have "series_ok accepts g ''wind_speed_10m''" by simp
    from hourly_trace_returns[THEN iffD2, OF this] obtain t5 where t5: "hourly_trace accepts g ''wind_speed_10m'' Scatter ''GFS Wind'' GFS_COLOR
              [(''mode'', ''lines''), (''showlegend'', ''False'')] (Some (2, 1)) = Inr t5" ..
    from R have "series_ok accepts e ''wind_speed_10m''" by simp
    from hourly_trace_returns[THEN iffD2, OF this] obtain t6 where t6: "hourly_trace accepts e ''wind_speed_10m'' Scatter ''ECMWF Wind'' ECMWF_COLOR
              [(''mode'', ''lines''), (''showlegend'', ''False'')] (Some (2, 1)) = Inr t6" ..
    from R have "series_ok accepts g ''relative_humidity_2m''" by simp
    from hourly_trace_returns[THEN iffD2, OF this] obtain t7 where t7: "hourly_trace accepts g ''relative_humidity_2m'' Scatter ''GFS Humidity'' GFS_COLOR
              [(''mode'', ''lines''), (''showlegend'', ''False'')] (Some (2, 2)) = Inr t7" ..
    from R have "series_ok accepts e ''relative_humidity_2m''" by simp
    from hourly_trace_returns[THEN iffD2, OF this] obtain t8 where t8: "hourly_trace accepts e ''relative_humidity_2m'' Scatter ''ECMWF Humidity'' ECMWF_COLOR
              [(''mode'', ''lines''), (''showlegend'', ''False'')] (Some (2, 2)) = Inr t8" ..
  show "\<exists>fig. create_multi_variable_dashboard accepts g e = Inr fig"
    unfolding create_multi_variable_dashboard_def by (simp only: t1 t2 t3 t4 t5 t6 t7 t8 ebind_simps) blast
qed

lemma plan_ok_gfs_absent:
  assumes "\<not> truthy g"
  shows "plan_ok accepts plan g e
           \<longleftrightarrow> (\<forall>p\<in>set plan. \<not> fst (snd p) \<longrightarrow> series_ok accepts e (snd (snd p)))"
  using series_ok_falsy[OF assms, of accepts]
  by (auto simp: plan_ok_def list_all_iff)

lemma plan_ok_ecmwf_absent:
  assumes "\<not> truthy e"
  shows "plan_ok accepts plan g e
           \<longleftrightarrow> (\<forall>p\<in>set plan. fst (snd p) \<longrightarrow> series_ok accepts g (snd (snd p)))"
  using series_ok_falsy[OF assms, of accepts]
  by (auto simp: plan_ok_def list_all_iff)

lemma builder_returns:
  assumes "(build, plan) \<in> set chart_builders"
  shows "(\<exists>fig. build accepts g e = Inr fig) \<longleftrightarrow> plan_ok accepts plan g e"
proof -
  from assms consider
      "build = create_temperature_comparison_chart" "plan = temperature_plan"
    | "build = create_precipitation_comparison_chart" "plan = precipitation_plan"
    | "build = create_wind_comparison_chart" "plan = wind_plan"
    | "build = create_multi_variable_dashboard" "plan = dashboard_plan"
    by (auto simp: chart_builders_def)
  then show ?thesis
  proof cases
    case 1
    then show ?thesis using temperature_returns[of accepts g e] by simp
  next
    case 2
    then show ?thesis using precipitation_returns[of accepts g e] by simp
  next
    case 3
    then show ?thesis using wind_returns[of accepts g e] by simp
  next
    case 4
    then show ?thesis using dashboard_returns[of accepts g e] by simp
  qed
qed

lemma builder_names:
  assumes "(build, plan) \<in> set chart_builders"
  shows "(build accepts gfs ecmwf = Inr fig \<longrightarrow>
            map tr_name (fig_traces fig) = expected_names plan gfs ecmwf)
       \<and> (\<not> truthy gfs \<and> \<not> truthy ecmwf \<longrightarrow>
            (\<exists>fig0. build accepts gfs ecmwf = Inr fig0 \<and> fig_traces fig0 = []))"
proof -
  from assms consider
      "build = create_temperature_comparison_chart" "plan = temperature_plan"
    | "build = create_precipitation_comparison_chart" "plan = precipitation_plan"
    | "build = create_wind_comparison_chart" "plan = wind_plan"
    | "build = create_multi_variable_dashboard" "plan = dashboard_plan"
    by (auto simp: chart_builders_def)
  then show ?thesis
  proof cases
    case 1
    then show ?thesis using temperature_names[of accepts gfs ecmwf fig]
        temperature_absent[of gfs ecmwf accepts] by simp
  next
    case 2
    then show ?thesis using precipitation_names[of accepts gfs ecmwf fig]
        precipitation_absent[of gfs ecmwf accepts] by simp
  next
    case 3
    then show ?thesis using wind_names[of accepts gfs ecmwf fig]
        wind_absent[of gfs ecmwf accepts] by simp
  next
    case 4
    then show ?thesis using dashboard_names[of accepts gfs ecmwf fig]
        dashboard_absent[of gfs ecmwf accepts] by simp
  qed
qed

lemma expected_names_gfs_absent:
  assumes "\<not> truthy g"
  shows "expected_names plan g e = expected_names (filter (\<lambda>p. \<not> fst (snd p)) plan) g e"
proof -
  have "filter (drawn g e) plan = filter (drawn g e) (filter (\<lambda>p. \<not> fst (snd p)) plan)"
    using assms by (induction plan) (auto simp: drawn_def has_series_def)
  then show ?thesis by (simp add: expected_names_def)
qed

lemma expected_names_ecmwf_absent:
  assumes "\<not> truthy e"
  shows "expected_names plan g e = expected_names (filter (\<lambda>p. fst (snd p)) plan) g e"
proof -
  have "filter (drawn g e) plan = filter (drawn g e) (filter (\<lambda>p. fst (snd p)) plan)"
    using assms by (induction plan) (auto simp: drawn_def has_series_def)
  then show ?thesis by (simp add: expected_names_def)
qed

text \<open>
  C3. For each of the four chart builders and its plan of traces:
  when the builder returns, it has drawn exactly the traces of the plan whose response
  is present and has the variable's series under \<open>hourly\<close>, in the order of the plan,
  so a trace is added for a model only if its response is present and contains the
  variable. The builder returns exactly when every block of the plan goes through, and
  a block always goes through for an absent response (or any false value): with GFS
  absent the builder returns exactly when the ECMWF blocks go through, and then draws
  only ECMWF traces; likewise with ECMWF absent; with both absent it returns a figure
  with no trace. So an absent response adds no trace and never makes a builder raise.
  With GFS absent and an ECMWF response that has \<open>hourly.time\<close> and
  \<open>hourly.temperature_2m\<close>, both taken by the chart library, the temperature chart
  has exactly one trace, the ECMWF one.
\<close>

theorem chart_traces_only_if_present:
  assumes "(build, plan) \<in> set chart_builders"
  shows "(build accepts gfs ecmwf = Inr fig \<longrightarrow>
            map tr_name (fig_traces fig) = expected_names plan gfs ecmwf)
       \<and> (\<not> truthy gfs \<and> \<not> truthy ecmwf \<longrightarrow>
            (\<exists>fig0. build accepts gfs ecmwf = Inr fig0 \<and> fig_traces fig0 = []))
       \<and> (\<not> truthy gfs \<and> ecmwf = JObj kvs \<and> map_of kvs ''hourly'' = Some (JObj h)
            \<and> map_of h ''time'' = Some x \<and> map_of h ''temperature_2m'' = Some y
            \<and> accepts x \<and> accepts y \<longrightarrow>
            (\<exists>fig1 t. create_temperature_comparison_chart accepts gfs ecmwf = Inr fig1
               \<and> fig_traces fig1 = [t] \<and> tr_name t = ''ECMWF'' \<and> tr_x t = x \<and> tr_y t = y))
       \<and> ((\<exists>fig2. build accepts gfs ecmwf = Inr fig2) \<longleftrightarrow> plan_ok accepts plan gfs ecmwf)
       \<and> (\<not> truthy gfs \<longrightarrow>
            ((\<exists>fig3. build accepts gfs ecmwf = Inr fig3)
               \<longleftrightarrow> (\<forall>p\<in>set plan. \<not> fst (snd p) \<longrightarrow> series_ok accepts ecmwf (snd (snd p))))
          \<and> (build accepts gfs ecmwf = Inr fig \<longrightarrow>
                map tr_name (fig_traces fig)
                  = expected_names (filter (\<lambda>p. \<not> fst (snd p)) plan) gfs ecmwf))
       \<and> (\<not> truthy ecmwf \<longrightarrow>
            ((\<exists>fig4. build accepts gfs ecmwf = Inr fig4)
               \<longleftrightarrow> (\<forall>p\<in>set plan. fst (snd p) \<longrightarrow> series_ok accepts gfs (snd (snd p))))
          \<and> (build accepts gfs ecmwf = Inr fig \<longrightarrow>
                map tr_name (fig_traces fig)
                  = expected_names (filter (\<lambda>p. fst (snd p)) plan) gfs ecmwf))"
proof -
  note ab = builder_names[OF assms, of accepts gfs ecmwf fig]
  note r = builder_returns[OF assms, of accepts gfs ecmwf]
  have c: "\<exists>fig1 t. create_temperature_comparison_chart accepts gfs ecmwf = Inr fig1
               \<and> fig_traces fig1 = [t] \<and> tr_name t = ''ECMWF'' \<and> tr_x t = x \<and> tr_y t = y"
    if "\<not> truthy gfs \<and> ecmwf = JObj kvs \<and> map_of kvs ''hourly'' = Some (JObj h)
            \<and> map_of h ''time'' = Some x \<and> map_of h ''temperature_2m'' = Some y
            \<and> accepts x \<and> accepts y"
    using that temperature_ecmwf_only[of gfs ecmwf kvs h x y accepts] by simp
  have d: "((\<exists>fig3. build accepts gfs ecmwf = Inr fig3)
               \<longleftrightarrow> (\<forall>p\<in>set plan. \<not> fst (snd p) \<longrightarrow> series_ok accepts ecmwf (snd (snd p))))
          \<and> (build accepts gfs ecmwf = Inr fig \<longrightarrow>
                map tr_name (fig_traces fig)
                  = expected_names (filter (\<lambda>p. \<not> fst (snd p)) plan) gfs ecmwf)"
    if g: "\<not> truthy gfs"
    using r plan_ok_gfs_absent[OF g, of accepts plan ecmwf] ab
      expected_names_gfs_absent[OF g, of plan ecmwf] by simp
  have e: "((\<exists>fig4. build accepts gfs ecmwf = Inr fig4)
               \<longleftrightarrow> (\<forall>p\<in>set plan. fst (snd p) \<longrightarrow> series_ok accepts gfs (snd (snd p))))
          \<and> (build accepts gfs ecmwf = Inr fig \<longrightarrow>
                map tr_name (fig_traces fig)
                  = expected_names (filter (\<lambda>p. fst (snd p)) plan) gfs ecmwf)"
    if g: "\<not> truthy ecmwf"
    using r plan_ok_ecmwf_absent[OF g, of accepts plan gfs] ab
      expected_names_ecmwf_absent[OF g, of plan gfs] by simp
  from ab have p1: "build accepts gfs ecmwf = Inr fig \<longrightarrow>
            map tr_name (fig_traces fig) = expected_names plan gfs ecmwf" by (rule conjunct1)
  from ab have p2: "\<not> truthy gfs \<and> \<not> truthy ecmwf \<longrightarrow>
            (\<exists>fig0. build accepts gfs ecmwf = Inr fig0 \<and> fig_traces fig0 = [])" by (rule conjunct2)
  have p3: "\<not> truthy gfs \<and> ecmwf = JObj kvs \<and> map_of kvs ''hourly'' = Some (JObj h)
            \<and> map_of h ''time'' = Some x \<and> map_of h ''temperature_2m'' = Some y
            \<and> accepts x \<and> accepts y \<longrightarrow>
            (\<exists>fig1 t. create_temperature_comparison_chart accepts gfs ecmwf = Inr fig1
               \<and> fig_traces fig1 = [t] \<and> tr_name t = ''ECMWF'' \<and> tr_x t = x \<and> tr_y t = y)"
    by (rule impI) (rule c)
  have p5: "\<not> truthy gfs \<longrightarrow>
            ((\<exists>fig3. build accepts gfs ecmwf = Inr fig3)
               \<longleftrightarrow> (\<forall>p\<in>set plan. \<not> fst (snd p) \<longrightarrow> series_ok accepts ecmwf (snd (snd p))))
          \<and> (build accepts gfs ecmwf = Inr fig \<longrightarrow>
                map tr_name (fig_traces fig)
                  = expected_names (filter (\<lambda>p. \<not> fst (snd p)) plan) gfs ecmwf)"
    by (rule impI) (rule d)
  have p6: "\<not> truthy ecmwf \<longrightarrow>
            ((\<exists>fig4. build accepts gfs ecmwf = Inr fig4)
               \<longleftrightarrow> (\<forall>p\<in>set plan. fst (snd p) \<longrightarrow> series_ok accepts gfs (snd (snd p))))
          \<and> (build accepts gfs ecmwf = Inr fig \<longrightarrow>
                map tr_name (fig_traces fig)
                  = expected_names (filter (\<lambda>p. fst (snd p)) plan) gfs ecmwf)"
    by (rule impI) (rule e)
  from p1 p2 p3 r p5 p6 show ?thesis by (intro conjI)
qed

theorem chart_traces_only_if_present_witness:
  "(create_temperature_comparison_chart, temperature_plan) \<in> set chart_builders
   \<and> (\<exists>fig. create_temperature_comparison_chart (\<lambda>v. case v of JArr xs \<Rightarrow> True | _ \<Rightarrow> False) JNull
              (JObj [(''hourly'', JObj [(''time'', JArr [JStr ''2024-01-01T00:00'']),
                                        (''temperature_2m'', JArr [JInt 20])])]) = Inr fig
          \<and> map tr_name (fig_traces fig) = [''ECMWF''])
   \<and> (\<exists>fig0. create_temperature_comparison_chart (\<lambda>v. case v of JArr xs \<Rightarrow> True | _ \<Rightarrow> False)
              JNull JNull = Inr fig0 \<and> fig_traces fig0 = [])
   \<and> (create_precipitation_comparison_chart, precipitation_plan) \<in> set chart_builders
   \<and> \<not> truthy JNull
   \<and> (\<exists>fig. create_precipitation_comparison_chart (\<lambda>v. case v of JArr xs \<Rightarrow> True | _ \<Rightarrow> False) JNull
              (JObj [(''hourly'', JObj [(''time'', JArr [JStr ''2024-01-01T00:00'']),
                                        (''precipitation'', JArr [JInt 0])])]) = Inr fig
          \<and> map tr_name (fig_traces fig) = [''ECMWF''])
   \<and> (create_multi_variable_dashboard, dashboard_plan) \<in> set chart_builders
   \<and> (\<exists>fig. create_multi_variable_dashboard (\<lambda>v. case v of JArr xs \<Rightarrow> True | _ \<Rightarrow> False)
              (JObj [(''hourly'', JObj [(''time'', JArr [JStr ''2024-01-01T00:00'']),
                                        (''temperature_2m'', JArr [JInt 20]),
                                        (''precipitation'', JArr [JInt 0]),
                                        (''wind_speed_10m'', JArr [JInt 5]),
                                        (''relative_humidity_2m'', JArr [JInt 60])])])
              JNull = Inr fig
          \<and> map tr_name (fig_traces fig) = [''GFS'', ''GFS Precip'', ''GFS Wind'', ''GFS Humidity''])"
proof -
  let ?A = "\<lambda>v. case v of JArr xs \<Rightarrow> True | _ \<Rightarrow> False"
  let ?E = "JObj [(''hourly'', JObj [(''time'', JArr [JStr ''2024-01-01T00:00'']),
                                        (''temperature_2m'', JArr [JInt 20])])]"
  let ?P = "JObj [(''hourly'', JObj [(''time'', JArr [JStr ''2024-01-01T00:00'']),
                                        (''precipitation'', JArr [JInt 0])])]"
  let ?G = "JObj [(''hourly'', JObj [(''time'', JArr [JStr ''2024-01-01T00:00'']),
                                        (''temperature_2m'', JArr [JInt 20]),
                                        (''precipitation'', JArr [JInt 0]),
                                        (''wind_speed_10m'', JArr [JInt 5]),
                                        (''relative_humidity_2m'', JArr [JInt 60])])]"
  let ?F = "\<lparr>fig_traces = [], fig_layout = []\<rparr>"
  have m: "(create_temperature_comparison_chart, temperature_plan) \<in> set chart_builders"
    by (simp add: chart_builders_def)
  have mpc: "(create_precipitation_comparison_chart, precipitation_plan) \<in> set chart_builders"
    by (simp add: chart_builders_def)
  have md: "(create_multi_variable_dashboard, dashboard_plan) \<in> set chart_builders"
    by (simp add: chart_builders_def)
  have n: "\<not> truthy JNull" by simp
  have "\<exists>fig1 t. create_temperature_comparison_chart ?A JNull ?E = Inr fig1
           \<and> fig_traces fig1 = [t] \<and> tr_name t = ''ECMWF''
           \<and> tr_x t = JArr [JStr ''2024-01-01T00:00''] \<and> tr_y t = JArr [JInt 20]"
    using chart_traces_only_if_present[OF m, of ?A JNull ?E ?F
     "[(''hourly'', JObj [(''time'', JArr [JStr ''2024-01-01T00:00'']),
                                        (''temperature_2m'', JArr [JInt 20])])]"
     "[(''time'', JArr [JStr ''2024-01-01T00:00'']), (''temperature_2m'', JArr [JInt 20])]"
     "JArr [JStr ''2024-01-01T00:00'']" "JArr [JInt 20]"]
    by simp
  then obtain fig1 where f1: "create_temperature_comparison_chart ?A JNull ?E = Inr fig1"
    by (elim exE conjE)
  from chart_traces_only_if_present[OF m, of ?A JNull ?E fig1 "[]" "[]" JNull JNull] f1
  have "map tr_name (fig_traces fig1) = expected_names temperature_plan JNull ?E"
    by simp
  also have "\<dots> = [''ECMWF'']"
    by (simp add: expected_names_def temperature_plan_def drawn_def has_series_def)
  finally have n1: "map tr_name (fig_traces fig1) = [''ECMWF'']" .
  from f1 n1 have a: "\<exists>fig. create_temperature_comparison_chart ?A JNull ?E = Inr fig
          \<and> map tr_name (fig_traces fig) = [''ECMWF'']"
    by (intro exI[of _ fig1] conjI)
  from chart_traces_only_if_present[OF m, of ?A JNull JNull ?F "[]" "[]" JNull JNull]
  have b: "\<exists>fig0. create_temperature_comparison_chart ?A JNull JNull = Inr fig0 \<and> fig_traces fig0 = []"
    by simp
  have okp: "\<forall>p\<in>set precipitation_plan. \<not> fst (snd p) \<longrightarrow> series_ok ?A ?P (snd (snd p))"
    by (simp add: precipitation_plan_def series_ok_def)
  note tp = chart_traces_only_if_present[OF mpc, of ?A JNull ?P ?F "[]" "[]" JNull JNull,
      THEN conjunct2, THEN conjunct2, THEN conjunct2, THEN conjunct2, THEN conjunct1]
  from tp[THEN mp, OF n, THEN conjunct1, THEN iffD2, OF okp]
  have "\<exists>fig3. create_precipitation_comparison_chart ?A JNull ?P = Inr fig3" .
  then obtain fig3 where f3: "create_precipitation_comparison_chart ?A JNull ?P = Inr fig3" ..
  from chart_traces_only_if_present[OF mpc, of ?A JNull ?P fig3 "[]" "[]" JNull JNull,
      THEN conjunct1, THEN mp, OF f3]
  have "map tr_name (fig_traces fig3) = expected_names precipitation_plan JNull ?P" .
  also have "\<dots> = [''ECMWF'']"
    by (simp add: expected_names_def precipitation_plan_def drawn_def has_series_def)
  finally have n3: "map tr_name (fig_traces fig3) = [''ECMWF'']" .
  from f3 n3 have c: "\<exists>fig. create_precipitation_comparison_chart ?A JNull ?P = Inr fig
          \<and> map tr_name (fig_traces fig) = [''ECMWF'']"
    by (intro exI[of _ fig3] conjI)
  have okd: "\<forall>p\<in>set dashboard_plan. fst (snd p) \<longrightarrow> series_ok ?A ?G (snd (snd p))"
    by (simp add: dashboard_plan_def series_ok_def)
  note td = chart_traces_only_if_present[OF md, of ?A ?G JNull ?F "[]" "[]" JNull JNull,
      THEN conjunct2, THEN conjunct2, THEN conjunct2, THEN conjunct2, THEN conjunct2]
  from td[THEN mp, OF n, THEN conjunct1, THEN iffD2, OF okd]
  have "\<exists>fig4. create_multi_variable_dashboard ?A ?G JNull = Inr fig4" .
  then obtain fig4 where f4: "create_multi_variable_dashboard ?A ?G JNull = Inr fig4" ..
  from chart_traces_only_if_present[OF md, of ?A ?G JNull fig4 "[]" "[]" JNull JNull,
      THEN conjunct1, THEN mp, OF f4]
  have "map tr_name (fig_traces fig4) = expected_names dashboard_plan ?G JNull" .
  also have "\<dots> = [''GFS'', ''GFS Precip'', ''GFS Wind'', ''GFS Humidity'']"
    by (simp add: expected_names_def dashboard_plan_def drawn_def has_series_def)
  finally have n4: "map tr_name (fig_traces fig4) = [''GFS'', ''GFS Precip'', ''GFS Wind'', ''GFS Humidity'']" .
  from f4 n4 have d: "\<exists>fig. create_multi_variable_dashboard ?A ?G JNull = Inr fig
          \<and> map tr_name (fig_traces fig) = [''GFS'', ''GFS Precip'', ''GFS Wind'', ''GFS Humidity'']"
    by (intro exI[of _ fig4] conjI)
  from m a b mpc n c md d show ?thesis by (intro conjI)
qed

section \<open>The alerts map builder\<close>

lemma is_polygonal_Inr:
  "is_polygonal geometry = Inr b \<Longrightarrow> b = polygon_geometry geometry"
  by (cases geometry) (auto simp: is_polygonal_def split: if_splits option.splits)

lemma is_polygonal_typed:
  "\<not> truthy geometry \<or> is_obj geometry \<Longrightarrow> is_polygonal geometry = Inr (polygon_geometry geometry)"
  by (cases geometry) (auto simp: is_polygonal_def split: option.splits)

lemma severity_color_palette:
  "severity_color severity = Inr color \<Longrightarrow> color \<in> set (map snd SEVERITY_COLORS)"
  by (cases severity) (auto simp: SEVERITY_COLORS_def split: if_splits)

lemma severity_color_hashable:
  "hashable severity \<Longrightarrow> \<exists>color. severity_color severity = Inr color"
  by (cases severity) auto

lemma alert_child_Inr:
  assumes "alert_child fmt center alert = Inr c"
  shows "\<exists>props geometry severity color popup.
           py_get alert ''properties'' (JObj []) = Inr props
         \<and> py_get alert ''geometry'' JNull = Inr geometry
         \<and> py_get props ''severity'' (JStr ''Unknown'') = Inr severity
         \<and> severity_color severity = Inr color
         \<and> color \<in> set (map snd SEVERITY_COLORS)
         \<and> c = (if polygon_geometry geometry then GeoJson geometry color popup
                 else Marker center popup ''red'')"
proof -
  from assms obtain props geometry severity color event area polygonal where
    a: "py_get alert ''properties'' (JObj []) = Inr props"
       "py_get alert ''geometry'' JNull = Inr geometry"
       "py_get props ''severity'' (JStr ''Unknown'') = Inr severity"
       "severity_color severity = Inr color"
       "is_polygonal geometry = Inr polygonal"
       "c = (if polygonal then GeoJson geometry color (popup_html fmt event severity area)
             else Marker center (popup_html fmt event severity area) ''red'')"
    unfolding alert_child_def ebind_Inr_iff
    by (elim exE conjE) (auto split: if_splits)
  from is_polygonal_Inr[OF a(5)] a(6)
  have "c = (if polygon_geometry geometry then GeoJson geometry color (popup_html fmt event severity area)
             else Marker center (popup_html fmt event severity area) ''red'')" by simp
  with a(1-4) severity_color_palette[OF a(4)] show ?thesis by blast
qed

lemma alert_child_typed:
  assumes "typed_alert alert"
  shows "\<exists>c. alert_child fmt center alert = Inr c"
proof -
  from assms obtain props severity geometry where
    a: "py_get alert ''properties'' (JObj []) = Inr props"
       "py_get props ''severity'' (JStr ''Unknown'') = Inr severity"
       "hashable severity"
       "py_get alert ''geometry'' JNull = Inr geometry"
       "\<not> truthy geometry \<or> is_obj geometry"
    by (auto simp: typed_alert_def split: sum.splits)
  from severity_color_hashable[OF a(3)] obtain color where c: "severity_color severity = Inr color" ..
  from a(2) obtain ps where ps: "props = JObj ps" by (cases props) auto
  from a c ps is_polygonal_typed[OF a(5)] show ?thesis
    by (simp add: alert_child_def)
qed

lemma alerts_loop_Inr:
  "alerts_loop fmt center alerts acc = Inr cs
     \<longleftrightarrow> (\<exists>ds. cs = acc @ ds \<and> list_all2 (\<lambda>a c. alert_child fmt center a = Inr c) alerts ds)"
proof (induction alerts arbitrary: acc)
  case Nil
  show ?case by auto
next
  case (Cons a rest)
  show ?case
  proof (cases "alert_child fmt center a")
    case (Inl e)
    then show ?thesis by (auto simp: list_all2_Cons1)
  next
    case (Inr c)
    then show ?thesis using Cons.IH[of "acc @ [c]"]
      by (auto simp: list_all2_Cons1)
  qed
qed

lemma create_alerts_map_Inr:
  "create_alerts_map fmt alerts state_code = Inr m
     \<longleftrightarrow> (\<exists>cs. list_all2 (\<lambda>a c. alert_child fmt (map_location m) a = Inr c) alerts cs
            \<and> m = \<lparr>map_location = (case map_of STATE_CENTERS state_code of
                                    Some c \<Rightarrow> c | None \<Rightarrow> (39.8283, -98.5795)),
                   map_zoom_start = 6, map_tiles = ''CartoDB positron'', map_children = cs\<rparr>)"
  by (auto simp: create_alerts_map_def Let_def ebind_Inr_iff alerts_loop_Inr)

lemma alert_child_polygon:
  assumes "polygon_geometry g"
  shows "\<exists>popup. alert_child fmt center
            (JObj [(''properties'', JObj [(''severity'', JStr s)]), (''geometry'', g)])
          = Inr (GeoJson g (case map_of SEVERITY_COLORS s of Some c \<Rightarrow> c | None \<Rightarrow> ''#808080'') popup)"
proof -
  from assms have "is_obj g" by (cases g) auto
  then have "\<not> truthy g \<or> is_obj g" by simp
  from is_polygonal_typed[OF this] assms show ?thesis
    by (simp add: alert_child_def)
qed

text \<open>
  C9. When \<open>create_alerts_map\<close> returns, the map has exactly one element per alert,
  in the order of the alerts: a GeoJson shape of the alert's geometry when the type of
  the geometry is \<open>Polygon\<close> or \<open>MultiPolygon\<close>, coloured by the palette entry of
  the alert's severity (one of the five colours; \<open>#808080\<close> for a severity outside the
  table), and a marker pin at the centre of the map otherwise. It returns for every list
  of alerts of the expected shape. Two alerts with polygon geometry and the severities
  Extreme and Minor give two shapes coloured \<open>#FF0000\<close> and \<open>#00FF00\<close>.
\<close>

theorem create_alerts_map_children:
  "(create_alerts_map fmt alerts state_code = Inr m \<longrightarrow>
      length (map_children m) = length alerts
    \<and> (\<forall>i<length alerts. \<exists>props geometry severity color popup.
          py_get (alerts ! i) ''properties'' (JObj []) = Inr props
        \<and> py_get (alerts ! i) ''geometry'' JNull = Inr geometry
        \<and> py_get props ''severity'' (JStr ''Unknown'') = Inr severity
        \<and> severity_color severity = Inr color
        \<and> color \<in> set (map snd SEVERITY_COLORS)
        \<and> map_children m ! i =
            (if polygon_geometry geometry then GeoJson geometry color popup
             else Marker (map_location m) popup ''red'')))
   \<and> (list_all typed_alert alerts \<longrightarrow> (\<exists>m'. create_alerts_map fmt alerts state_code = Inr m'))
   \<and> severity_color (JStr ''Extreme'') = Inr ''#FF0000''
   \<and> severity_color (JStr ''Severe'') = Inr ''#FF6600''
   \<and> severity_color (JStr ''Moderate'') = Inr ''#FFCC00''
   \<and> severity_color (JStr ''Minor'') = Inr ''#00FF00''
   \<and> severity_color (JStr ''Unknown'') = Inr ''#808080''
   \<and> (polygon_geometry g1 \<and> polygon_geometry g2 \<longrightarrow>
        (\<exists>m' p1 p2.
           create_alerts_map fmt
             [JObj [(''properties'', JObj [(''severity'', JStr ''Extreme'')]), (''geometry'', g1)],
              JObj [(''properties'', JObj [(''severity'', JStr ''Minor'')]), (''geometry'', g2)]]
             state_code = Inr m'
         \<and> map_children m' = [GeoJson g1 ''#FF0000'' p1, GeoJson g2 ''#00FF00'' p2]))"
proof -
  have a: "length (map_children m) = length alerts
    \<and> (\<forall>i<length alerts. \<exists>props geometry severity color popup.
          py_get (alerts ! i) ''properties'' (JObj []) = Inr props
        \<and> py_get (alerts ! i) ''geometry'' JNull = Inr geometry
        \<and> py_get props ''severity'' (JStr ''Unknown'') = Inr severity
        \<and> severity_color severity = Inr color
        \<and> color \<in> set (map snd SEVERITY_COLORS)
        \<and> map_children m ! i =
            (if polygon_geometry geometry then GeoJson geometry color popup
             else Marker (map_location m) popup ''red''))"
    if r: "create_alerts_map fmt alerts state_code = Inr m"
  proof -
    from r obtain cs where
      cs: "list_all2 (\<lambda>a c. alert_child fmt (map_location m) a = Inr c) alerts cs"
      and mc: "map_children m = cs"
      unfolding create_alerts_map_Inr by auto
    from cs have len: "length cs = length alerts" by (simp add: list_all2_lengthD)
    have "\<exists>props geometry severity color popup.
          py_get (alerts ! i) ''properties'' (JObj []) = Inr props
        \<and> py_get (alerts ! i) ''geometry'' JNull = Inr geometry
        \<and> py_get props ''severity'' (JStr ''Unknown'') = Inr severity
        \<and> severity_color severity = Inr color
        \<and> color \<in> set (map snd SEVERITY_COLORS)
        \<and> cs ! i =
            (if polygon_geometry geometry then GeoJson geometry color popup
             else Marker (map_location m) popup ''red'')" if "i < length alerts" for i
      using alert_child_Inr[OF list_all2_nthD[OF cs that]] .
    with len mc show ?thesis by simp
  qed
  have b: "\<exists>m'. create_alerts_map fmt alerts state_code = Inr m'" if t: "list_all typed_alert alerts"
  proof -
    define center where "center = (case map_of STATE_CENTERS state_code of
                                    Some c \<Rightarrow> c | None \<Rightarrow> (39.8283, -98.5795))"
    have "\<exists>cs. list_all2 (\<lambda>a c. alert_child fmt center a = Inr c) alerts cs"
      using t
    proof (induction alerts)
      case Nil
      show ?case by simp
    next
      case (Cons a rest)
      from Cons.prems have "typed_alert a" "list_all typed_alert rest" by simp_all
      from alert_child_typed[OF this(1), of fmt center] Cons.IH[OF this(2)]
      show ?case by (auto simp: list_all2_Cons1)
    qed
    then obtain cs where "list_all2 (\<lambda>a c. alert_child fmt center a = Inr c) alerts cs" ..
    then have "alerts_loop fmt center alerts [] = Inr cs"
      by (simp add: alerts_loop_Inr)
    then show ?thesis
      by (simp add: create_alerts_map_def center_def)
  qed
  have c: "severity_color (JStr ''Extreme'') = Inr ''#FF0000''"
          "severity_color (JStr ''Severe'') = Inr ''#FF6600''"
          "severity_color (JStr ''Moderate'') = Inr ''#FFCC00''"
          "severity_color (JStr ''Minor'') = Inr ''#00FF00''"
          "severity_color (JStr ''Unknown'') = Inr ''#808080''"
    by (simp_all add: SEVERITY_COLORS_def)
  have d: "\<exists>m' p1 p2.
           create_alerts_map fmt
             [JObj [(''properties'', JObj [(''severity'', JStr ''Extreme'')]), (''geometry'', g1)],
              JObj [(''properties'', JObj [(''severity'', JStr ''Minor'')]), (''geometry'', g2)]]
             state_code = Inr m'
         \<and> map_children m' = [GeoJson g1 ''#FF0000'' p1, GeoJson g2 ''#00FF00'' p2]"
    if p: "polygon_geometry g1 \<and> polygon_geometry g2"
  proof -
    define center where "center = (case map_of STATE_CENTERS state_code of
                                    Some c \<Rightarrow> c | None \<Rightarrow> (39.8283, -98.5795))"
    from p alert_child_polygon[of g1 fmt center "''Extreme''"] obtain p1 where
      p1: "alert_child fmt center
            (JObj [(''properties'', JObj [(''severity'', JStr ''Extreme'')]), (''geometry'', g1)])
          = Inr (GeoJson g1 ''#FF0000'' p1)"
      by (auto simp: SEVERITY_COLORS_def)
    from p alert_child_polygon[of g2 fmt center "''Minor''"] obtain p2 where
      p2: "alert_child fmt center
            (JObj [(''properties'', JObj [(''severity'', JStr ''Minor'')]), (''geometry'', g2)])
          = Inr (GeoJson g2 ''#00FF00'' p2)"
      by (auto simp: SEVERITY_COLORS_def)
    from p1 p2 show ?thesis
      by (simp add: create_alerts_map_def center_def[symmetric])
  qed
  from a b c d show ?thesis by simp
qed

theorem create_alerts_map_children_witness:
  "polygon_geometry (JObj [(''type'', JStr ''Polygon'')])
   \<and> polygon_geometry (JObj [(''type'', JStr ''MultiPolygon'')])
   \<and> list_all typed_alert
       [JObj [(''properties'', JObj [(''severity'', JStr ''Extreme'')]),
              (''geometry'', JObj [(''type'', JStr ''Polygon'')])],
        JObj [(''properties'', JObj [(''severity'', JStr ''Minor'')]),
              (''geometry'', JObj [(''type'', JStr ''MultiPolygon'')])]]
   \<and> (\<exists>m' p1 p2.
         create_alerts_map (\<lambda>v. [])
           [JObj [(''properties'', JObj [(''severity'', JStr ''Extreme'')]),
                  (''geometry'', JObj [(''type'', JStr ''Polygon'')])],
            JObj [(''properties'', JObj [(''severity'', JStr ''Minor'')]),
                  (''geometry'', JObj [(''type'', JStr ''MultiPolygon'')])]]
           ''CA'' = Inr m'
       \<and> length (map_children m') = 2
       \<and> map_children m' = [GeoJson (JObj [(''type'', JStr ''Polygon'')]) ''#FF0000'' p1,
                             GeoJson (JObj [(''type'', JStr ''MultiPolygon'')]) ''#00FF00'' p2])"
proof -
  let ?G1 = "JObj [(''type'', JStr ''Polygon'')]"
  let ?G2 = "JObj [(''type'', JStr ''MultiPolygon'')]"
  let ?alerts = "[JObj [(''properties'', JObj [(''severity'', JStr ''Extreme'')]), (''geometry'', ?G1)],
                  JObj [(''properties'', JObj [(''severity'', JStr ''Minor'')]), (''geometry'', ?G2)]]"
  have g: "polygon_geometry ?G1" "polygon_geometry ?G2" by simp_all
  have t: "list_all typed_alert ?alerts" by (simp add: typed_alert_def)
  have "\<exists>m' p1 p2. create_alerts_map (\<lambda>v. []) ?alerts ''CA'' = Inr m'
       \<and> map_children m' = [GeoJson ?G1 ''#FF0000'' p1, GeoJson ?G2 ''#00FF00'' p2]"
    using g create_alerts_map_children[of "\<lambda>v. []" ?alerts "''CA''"
        "\<lparr>map_location = (0, 0), map_zoom_start = 0, map_tiles = [], map_children = []\<rparr>" ?G1 ?G2]
    by (elim conjE) simp
  then obtain m' p1 p2 where
    r: "create_alerts_map (\<lambda>v. []) ?alerts ''CA'' = Inr m'"
       "map_children m' = [GeoJson ?G1 ''#FF0000'' p1, GeoJson ?G2 ''#00FF00'' p2]"
    by (elim exE conjE)
  from r(1) create_alerts_map_children[of "\<lambda>v. []" ?alerts "''CA''" m' ?G1 ?G2]
  have l: "length (map_children m') = 2" by (elim conjE) simp
  from r l have "\<exists>m' p1 p2. create_alerts_map (\<lambda>v. []) ?alerts ''CA'' = Inr m'
       \<and> length (map_children m') = 2
       \<and> map_children m' = [GeoJson ?G1 ''#FF0000'' p1, GeoJson ?G2 ''#00FF00'' p2]"
    by (intro exI[of _ m'] exI[of _ p1] exI[of _ p2] conjI)
  with g t show ?thesis by (intro conjI)
qed

end
